theory Spec2Isabelle
  imports Complex_Main "HOL-Library.Log_Nat"
begin

section \<open>Double-precision arithmetic\<close>

text \<open>
  Python floats are IEEE 754 doubles.  A finite double is modelled by the real number it
  denotes, and an arithmetic operation of the calibration code by the exact operation
  followed by \<open>rnd\<close>, rounding to the nearest double with ties to the even significand
  (53 significant bits, gradual underflow below \<open>2 powi (- 1022)\<close>).  Overflow to infinity
  is not modelled: the volumes of the detector are root mean squares of 16-bit samples.
  A decimal literal of the source such as \<^verbatim>\<open>1.2\<close> is the double \<open>rnd 1.2\<close>.

  \<open>exponent x\<close> is, for positive \<open>x\<close>, the integer \<open>e\<close> with \<open>2 powi e \<le> x < 2 powi (e + 1)\<close>.
\<close>

definition exponent :: "real \<Rightarrow> int" where
  "exponent x = (if 1 \<le> x then bitlen \<lfloor>x\<rfloor> - 1 else - bitlen (\<lceil>1 / x\<rceil> - 1))"

definition round_even :: "real \<Rightarrow> int" where
  "round_even y =
     (let f = \<lfloor>y\<rfloor>
      in if y - of_int f < 1 / 2 then f
         else if 1 / 2 < y - of_int f then f + 1
         else if even f then f else f + 1)"

definition rnd :: "real \<Rightarrow> real" where
  "rnd x =
     (if x = 0 then 0
      else let q = 2 powi (max (exponent \<bar>x\<bar>) (- 1022) - 52)
           in sgn x * of_int (round_even (\<bar>x\<bar> / q)) * q)"

definition fadd :: "real \<Rightarrow> real \<Rightarrow> real" where "fadd a b = rnd (a + b)"
definition fsub :: "real \<Rightarrow> real \<Rightarrow> real" where "fsub a b = rnd (a - b)"
definition fmul :: "real \<Rightarrow> real \<Rightarrow> real" where "fmul a b = rnd (a * b)"
definition fdiv :: "real \<Rightarrow> real \<Rightarrow> real" where "fdiv a b = rnd (a / b)"

section \<open>Breathing detector (src/breathing_detector.py)\<close>

text \<open>
  Volume readings are Python floats.  The non-finite floats that the calibration filter
  \<^verbatim>\<open>np.isfinite(volumes) & (volumes >= 0)\<close> removes are kept as separate constructors,
  so that the filter is a real branch of the model.  The threshold arithmetic of
  \<^verbatim>\<open>_auto_calibrate\<close> is modelled in double precision; the comparisons of
  \<^verbatim>\<open>_detect_breathing\<close> are comparisons of the reals that the doubles denote.
\<close>

datatype fl = Fin real | PosInf | NegInf | NaN

datatype breath = Inhale | Exhale | Neutral

text \<open>
  The fields of \<^verbatim>\<open>BreathingDetector\<close> that calibration and detection read or write.
  \<open>callback_set\<close> is the truth value of \<^verbatim>\<open>self.callback\<close>; \<open>calls\<close> is the trace of the
  invocations \<^verbatim>\<open>self.callback(new_state, volume)\<close>, oldest first.
\<close>

record detector =
  sensitivity :: real
  callback_set :: bool
  calls :: "(breath \<times> real) list"
  breathing_state :: breath
  last_state_change :: real
  min_state_duration :: real
  baseline_volume :: real
  inhale_threshold :: real
  exhale_threshold :: real
  calibration_samples :: "fl list"
  is_calibrated :: bool

text \<open>\<^verbatim>\<open>BreathingDetector.__init__\<close>; \<open>now\<close> is the value of \<^verbatim>\<open>time.time()\<close>.\<close>

definition new_detector :: "bool \<Rightarrow> real \<Rightarrow> real \<Rightarrow> detector" where
  "new_detector cb sens now =
     \<lparr> sensitivity = sens, callback_set = cb, calls = [],
       breathing_state = Neutral, last_state_change = now, min_state_duration = 0.3,
       baseline_volume = 0, inhale_threshold = 0, exhale_threshold = 0,
       calibration_samples = [], is_calibrated = False \<rparr>"

text \<open>\<^verbatim>\<open>volumes[np.isfinite(volumes) & (volumes >= 0)]\<close>\<close>

fun valid_volumes :: "fl list \<Rightarrow> real list" where
  "valid_volumes [] = []"
| "valid_volumes (Fin v # vs) = (if 0 \<le> v then v # valid_volumes vs else valid_volumes vs)"
| "valid_volumes (_ # vs) = valid_volumes vs"

text \<open>
  \<^verbatim>\<open>np.mean\<close>, \<^verbatim>\<open>np.median\<close> and \<^verbatim>\<open>np.std\<close> are functions of the numpy library, which is
  not part of the repository; the order in which numpy adds and rounds is not visible in
  the source.  The three functions are therefore parameters of the model: a calibration
  is computed with a \<open>numpy\<close>, and the statements below say what they assume of it.
\<close>

record numpy =
  np_mean :: "real list \<Rightarrow> real"
  np_median :: "real list \<Rightarrow> real"
  np_std :: "real list \<Rightarrow> real"

text \<open>
  The statistics that the three functions approximate: the arithmetic mean, the median
  (the mean of the two middle values for an even number of values) and the population
  standard deviation.  \<open>numpy_reference\<close> returns each of them rounded to a double; it
  agrees with numpy wherever numpy's own additions and divisions are exact, as they are
  for the buffers of whole numbers used below.
\<close>

definition mean :: "real list \<Rightarrow> real" where
  "mean xs = sum_list xs / real (length xs)"

definition median :: "real list \<Rightarrow> real" where
  "median xs =
     (let s = sort xs; n = length xs
      in if even n then (s ! (n div 2 - 1) + s ! (n div 2)) / 2 else s ! (n div 2))"

definition std :: "real list \<Rightarrow> real" where
  "std xs = sqrt (mean (map (\<lambda>v. (v - mean xs)\<^sup>2) xs))"

definition numpy_reference :: numpy where
  "numpy_reference =
     \<lparr> np_mean = (\<lambda>xs. rnd (mean xs)), np_median = (\<lambda>xs. rnd (median xs)),
       np_std = (\<lambda>xs. rnd (std xs)) \<rparr>"

text \<open>
  The threshold computation of \<^verbatim>\<open>_auto_calibrate\<close> (lines 141-163), from the baseline,
  the spread and the sensitivity to the pair (inhale threshold, exhale threshold), each
  operation in double precision.  \<^verbatim>\<open>abs\<close> and \<^verbatim>\<open>max\<close> are exact on doubles.
\<close>

definition thresholds :: "real \<Rightarrow> real \<Rightarrow> real \<Rightarrow> real \<times> real" where
  "thresholds baseline volume_std threshold_multiplier =
     (let inhale = fadd baseline (fmul (fmul volume_std threshold_multiplier) (rnd 1.2));
          exhale_reduction = fmul (fmul volume_std threshold_multiplier) (rnd 0.8);
          exhale = max (fmul baseline (rnd 0.3)) (fsub baseline exhale_reduction);
          threshold_separation = \<bar>fsub inhale exhale\<bar>;
          min_separation = max 20.0 (fmul baseline (rnd 0.4))
      in if threshold_separation < min_separation
         then (let mid_point = baseline; half_separation = fdiv min_separation 2
               in (fadd mid_point half_separation, max 1.0 (fsub mid_point half_separation)))
         else (inhale, exhale))"

text \<open>Lines 133-139: the baseline and the spread, with the guard against zero values.\<close>

definition baseline_and_std :: "numpy \<Rightarrow> real list \<Rightarrow> real \<times> real" where
  "baseline_and_std np valid =
     (let baseline = np_median np valid; volume_std = np_std np valid
      in if baseline = 0 \<or> volume_std = 0
         then (let baseline' = max 100.0 (np_mean np valid)
               in (baseline', max 50.0 (fmul baseline' 0.5)))
         else (baseline, volume_std))"

definition auto_calibrate :: "numpy \<Rightarrow> detector \<Rightarrow> detector" where
  "auto_calibrate np d =
     (if length (calibration_samples d) < 50 then d
      else let valid = valid_volumes (calibration_samples d)
           in if length valid < 10
              then d\<lparr> baseline_volume := 100.0, inhale_threshold := 150.0,
                      exhale_threshold := 50.0, is_calibrated := True \<rparr>
              else let (baseline, volume_std) = baseline_and_std np valid;
                       (inhale, exhale) = thresholds baseline volume_std (sensitivity d)
                   in d\<lparr> baseline_volume := baseline, inhale_threshold := inhale,
                          exhale_threshold := exhale, is_calibrated := True \<rparr>)"

definition collect_calibration_data :: "numpy \<Rightarrow> fl \<Rightarrow> detector \<Rightarrow> detector" where
  "collect_calibration_data np volume d =
     (let d' = d\<lparr> calibration_samples := calibration_samples d @ [volume] \<rparr>
      in if 100 \<le> length (calibration_samples d') then auto_calibrate np d' else d')"

definition recalibrate :: "detector \<Rightarrow> detector" where
  "recalibrate d =
     d\<lparr> calibration_samples := [], is_calibrated := False, baseline_volume := 0,
        inhale_threshold := 0, exhale_threshold := 0 \<rparr>"

definition set_sensitivity :: "numpy \<Rightarrow> real \<Rightarrow> detector \<Rightarrow> detector" where
  "set_sensitivity np sens d =
     (let d' = d\<lparr> sensitivity := max (rnd 0.1) (min 3.0 sens) \<rparr>
      in if is_calibrated d' then auto_calibrate np d' else d')"

text \<open>\<^verbatim>\<open>_detect_breathing\<close>; \<open>current_time\<close> is the value of \<^verbatim>\<open>time.time()\<close>.\<close>

definition detect_breathing :: "real \<Rightarrow> real \<Rightarrow> detector \<Rightarrow> detector" where
  "detect_breathing volume current_time d =
     (let new_state =
            (if volume > inhale_threshold d then Inhale
             else if volume < exhale_threshold d then Exhale
             else if current_time - last_state_change d > min_state_duration d then Neutral
             else breathing_state d)
      in if new_state \<noteq> breathing_state d
            \<and> current_time - last_state_change d > min_state_duration d
         then (let d' = d\<lparr> breathing_state := new_state, last_state_change := current_time \<rparr>
               in if callback_set d \<and> (new_state = Inhale \<or> new_state = Exhale)
                  then d'\<lparr> calls := calls d' @ [(new_state, volume)] \<rparr>
                  else d')
         else d)"

text \<open>
  Feeding a sequence of (volume, timestamp) readings to the classifier: the final state,
  and the timestamps of the readings at which a transition was applied.
\<close>

fun detect_all :: "(real \<times> real) list \<Rightarrow> detector \<Rightarrow> detector" where
  "detect_all [] d = d"
| "detect_all ((v, t) # rs) d = detect_all rs (detect_breathing v t d)"

fun applied_times :: "(real \<times> real) list \<Rightarrow> detector \<Rightarrow> real list" where
  "applied_times [] d = []"
| "applied_times ((v, t) # rs) d =
     (let d' = detect_breathing v t d
      in if breathing_state d' \<noteq> breathing_state d
         then t # applied_times rs d' else applied_times rs d')"

section \<open>Game (src/flappy_bird_game.py)\<close>

record bird =
  bird_x :: real
  bird_y :: real
  velocity_y :: real
  radius :: int

record pipe =
  pipe_x :: real
  gap_y :: real
  gap_height :: int
  width :: int
  passed :: bool

text \<open>The dataclass defaults: \<^verbatim>\<open>Bird()\<close> and \<^verbatim>\<open>Pipe(x=x, gap_y=gap_y)\<close>.\<close>

definition Bird :: bird where
  "Bird = \<lparr> bird_x = 100.0, bird_y = 250.0, velocity_y = 0.0, radius = 20 \<rparr>"

definition Pipe :: "real \<Rightarrow> real \<Rightarrow> pipe" where
  "Pipe x g = \<lparr> pipe_x = x, gap_y = g, gap_height = 120, width = 50, passed = False \<rparr>"

text \<open>
  The attributes of \<^verbatim>\<open>FlappyBirdGame\<close>.  \<^verbatim>\<open>GRAVITY\<close> and \<^verbatim>\<open>PIPE_SPEED\<close> are fields
  because \<^verbatim>\<open>adjust_difficulty\<close> assigns them; the attributes that are assigned in
  \<^verbatim>\<open>__init__\<close> only are constants.
\<close>

record game =
  the_bird :: bird
  pipes :: "pipe list"
  GRAVITY :: real
  PIPE_SPEED :: real
  is_running :: bool
  is_paused :: bool
  score :: int
  high_score :: int
  game_over :: bool
  start_time :: real
  current_breathing :: string
  breathing_force_active :: bool
  breathing_force_timer :: real

definition GAME_WIDTH :: real where "GAME_WIDTH = 800"
definition GAME_HEIGHT :: real where "GAME_HEIGHT = 600"
definition BREATHING_FORCE :: real where "BREATHING_FORCE = - 8.0"
definition EXHALE_FORCE :: real where "EXHALE_FORCE = 4.0"
definition MAX_VELOCITY :: real where "MAX_VELOCITY = 10.0"
definition PIPE_SPAWN_DISTANCE :: real where "PIPE_SPAWN_DISTANCE = 300"
definition BREATHING_FORCE_DURATION :: real where "BREATHING_FORCE_DURATION = 0.3"

definition new_game :: game where
  "new_game =
     \<lparr> the_bird = Bird, pipes = [], GRAVITY = 0.5, PIPE_SPEED = 3.0,
       is_running = False, is_paused = False, score = 0, high_score = 0,
       game_over = False, start_time = 0, current_breathing = ''neutral'',
       breathing_force_active = False, breathing_force_timer = 0 \<rparr>"

text \<open>
  \<^verbatim>\<open>_generate_pipe_at_position\<close>; \<open>g\<close> is the value drawn by
  \<^verbatim>\<open>random.randint(100, GAME_HEIGHT - 200)\<close>.
\<close>

definition generate_pipe_at_position :: "real \<Rightarrow> int \<Rightarrow> game \<Rightarrow> game" where
  "generate_pipe_at_position x g s = s\<lparr> pipes := pipes s @ [Pipe x (real_of_int g)] \<rparr>"

definition generate_pipe :: "int \<Rightarrow> game \<Rightarrow> game" where
  "generate_pipe g s = generate_pipe_at_position GAME_WIDTH g s"

text \<open>
  \<^verbatim>\<open>_generate_initial_pipes\<close>: the loop over \<^verbatim>\<open>range(3)\<close>; each round is given with
  the value its call of \<^verbatim>\<open>random.randint\<close> draws.
\<close>

fun generate_initial_pipes_loop :: "(nat \<times> int) list \<Rightarrow> game \<Rightarrow> game" where
  "generate_initial_pipes_loop [] s = s"
| "generate_initial_pipes_loop ((i, g) # rounds) s =
     generate_initial_pipes_loop rounds
       (generate_pipe_at_position (GAME_WIDTH + (real i * PIPE_SPAWN_DISTANCE)) g s)"

definition generate_initial_pipes :: "int \<Rightarrow> int \<Rightarrow> int \<Rightarrow> game \<Rightarrow> game" where
  "generate_initial_pipes g0 g1 g2 s = generate_initial_pipes_loop [(0, g0), (1, g1), (2, g2)] s"

definition reset_game :: "real \<Rightarrow> int \<Rightarrow> int \<Rightarrow> int \<Rightarrow> game \<Rightarrow> game" where
  "reset_game now g0 g1 g2 s =
     generate_initial_pipes g0 g1 g2
       (s\<lparr> the_bird := Bird, pipes := [], score := 0, game_over := False,
           start_time := now, breathing_force_active := False,
           breathing_force_timer := 0 \<rparr>)"

text \<open>\<^verbatim>\<open>start_game\<close> and \<^verbatim>\<open>stop_game\<close>, without the thread they start and join.\<close>

definition start_game :: "real \<Rightarrow> int \<Rightarrow> int \<Rightarrow> int \<Rightarrow> game \<Rightarrow> game" where
  "start_game now g0 g1 g2 s =
     (if is_running s then s else (reset_game now g0 g1 g2 s)\<lparr> is_running := True \<rparr>)"

definition stop_game :: "game \<Rightarrow> game" where
  "stop_game s = s\<lparr> is_running := False \<rparr>"

definition pause_game :: "game \<Rightarrow> game" where
  "pause_game s = s\<lparr> is_paused := \<not> is_paused s \<rparr>"

definition adjust_difficulty :: "real \<Rightarrow> game \<Rightarrow> game" where
  "adjust_difficulty difficulty_level s =
     (let base_pipe_speed = 3.0; base_gravity = 0.5
      in s\<lparr> PIPE_SPEED := base_pipe_speed * difficulty_level,
            GRAVITY := base_gravity * difficulty_level \<rparr>)"

text \<open>\<^verbatim>\<open>on_breathing_input\<close>; \<open>now\<close> is the value of \<^verbatim>\<open>time.time()\<close>.  The parameter
  \<^verbatim>\<open>volume\<close> is not read by the source.\<close>

definition on_breathing_input :: "string \<Rightarrow> real \<Rightarrow> real \<Rightarrow> game \<Rightarrow> game" where
  "on_breathing_input breath_type volume now s =
     (if game_over s \<or> is_paused s then s
      else let s1 = s\<lparr> current_breathing := breath_type \<rparr>
           in if breath_type = ''inhale''
              then s1\<lparr> the_bird := (the_bird s1)\<lparr> velocity_y :=
                           max BREATHING_FORCE (velocity_y (the_bird s1) + BREATHING_FORCE) \<rparr>,
                       breathing_force_active := True, breathing_force_timer := now \<rparr>
              else if breath_type = ''exhale''
              then s1\<lparr> the_bird := (the_bird s1)\<lparr> velocity_y :=
                           min EXHALE_FORCE (velocity_y (the_bird s1) + EXHALE_FORCE) \<rparr>,
                       breathing_force_active := True, breathing_force_timer := now \<rparr>
              else s1)"

text \<open>
  \<^verbatim>\<open>_on_breathing_detected\<close> of src/server.py and src/unified_app.py, the callback that
  the session controllers register with the detector: it forwards to the game only
  while \<^verbatim>\<open>is_running\<close> holds.
\<close>

definition on_breathing_detected :: "string \<Rightarrow> real \<Rightarrow> real \<Rightarrow> game \<Rightarrow> game" where
  "on_breathing_detected breath_type volume now s =
     (if is_running s then on_breathing_input breath_type volume now s else s)"

text \<open>\<^verbatim>\<open>_game_over\<close> (the name of the field \<open>game_over\<close> is taken).\<close>

definition do_game_over :: "game \<Rightarrow> game" where
  "do_game_over s =
     (let s1 = s\<lparr> game_over := True \<rparr>
      in if score s1 > high_score s1 then s1\<lparr> high_score := score s1 \<rparr> else s1)"

text \<open>
  \<^verbatim>\<open>_update_bird_physics\<close>, one definition for each of its five commented blocks, in
  the order of the source; \<open>now\<close> is the value of \<^verbatim>\<open>time.time()\<close>.
\<close>

definition apply_gravity :: "game \<Rightarrow> game" where
  "apply_gravity s =
     s\<lparr> the_bird := (the_bird s)\<lparr> velocity_y := velocity_y (the_bird s) + GRAVITY s \<rparr> \<rparr>"

definition expire_breathing_force :: "real \<Rightarrow> game \<Rightarrow> game" where
  "expire_breathing_force now s =
     (if breathing_force_active s \<and> now - breathing_force_timer s > BREATHING_FORCE_DURATION
      then s\<lparr> breathing_force_active := False, current_breathing := ''neutral'' \<rparr>
      else s)"

definition limit_velocity :: "game \<Rightarrow> game" where
  "limit_velocity s =
     s\<lparr> the_bird := (the_bird s)\<lparr> velocity_y :=
            max (- MAX_VELOCITY) (min MAX_VELOCITY (velocity_y (the_bird s))) \<rparr> \<rparr>"

definition update_position :: "game \<Rightarrow> game" where
  "update_position s =
     s\<lparr> the_bird := (the_bird s)\<lparr> bird_y := bird_y (the_bird s) + velocity_y (the_bird s) \<rparr> \<rparr>"

definition keep_bird_on_screen :: "game \<Rightarrow> game" where
  "keep_bird_on_screen s =
     (if bird_y (the_bird s) < real_of_int (radius (the_bird s))
      then s\<lparr> the_bird := (the_bird s)\<lparr> bird_y := real_of_int (radius (the_bird s)),
                                        velocity_y := 0 \<rparr> \<rparr>
      else if bird_y (the_bird s) > GAME_HEIGHT - real_of_int (radius (the_bird s))
      then do_game_over
             (s\<lparr> the_bird := (the_bird s)\<lparr>
                    bird_y := GAME_HEIGHT - real_of_int (radius (the_bird s)),
                    velocity_y := 0 \<rparr> \<rparr>)
      else s)"

definition update_bird_physics :: "real \<Rightarrow> game \<Rightarrow> game" where
  "update_bird_physics now s =
     keep_bird_on_screen
       (update_position (limit_velocity (expire_breathing_force now (apply_gravity s))))"

text \<open>
  The first loop of \<^verbatim>\<open>_update_pipes\<close>.  It walks a copy of the list, moves each pipe
  and removes it with \<^verbatim>\<open>self.pipes.remove(pipe)\<close> when it has left the screen.
  \<^verbatim>\<open>remove\<close> deletes the first element equal to the pipe (a dataclass compares by
  fields), which leaves the same list of values as deleting the pipe itself.
\<close>

fun move_pipes :: "real \<Rightarrow> pipe list \<Rightarrow> pipe list" where
  "move_pipes speed [] = []"
| "move_pipes speed (p # ps) =
     (let p' = p\<lparr> pipe_x := pipe_x p - speed \<rparr>
      in if pipe_x p' + real_of_int (width p') < 0
         then move_pipes speed ps else p' # move_pipes speed ps)"

definition update_pipes :: "int \<Rightarrow> game \<Rightarrow> game" where
  "update_pipes g s =
     (let s1 = s\<lparr> pipes := move_pipes (PIPE_SPEED s) (pipes s) \<rparr>
      in if pipes s1 = [] \<or> pipe_x (last (pipes s1)) < GAME_WIDTH - PIPE_SPAWN_DISTANCE
         then generate_pipe g s1 else s1)"

text \<open>The loop of \<^verbatim>\<open>_check_collisions\<close>: whether it reaches \<^verbatim>\<open>self._game_over()\<close>.\<close>

fun check_collisions_loop :: "bird \<Rightarrow> pipe list \<Rightarrow> bool" where
  "check_collisions_loop b [] = False"
| "check_collisions_loop b (p # ps) =
     (let bird_left = bird_x b - real_of_int (radius b);
          bird_right = bird_x b + real_of_int (radius b);
          bird_top = bird_y b - real_of_int (radius b);
          bird_bottom = bird_y b + real_of_int (radius b);
          pipe_left = pipe_x p;
          pipe_right = pipe_x p + real_of_int (width p)
      in if bird_right > pipe_left \<and> bird_left < pipe_right
         then (let gap_top = gap_y p; gap_bottom = gap_y p + real_of_int (gap_height p)
               in if bird_top < gap_top \<or> bird_bottom > gap_bottom then True
                  else check_collisions_loop b ps)
         else check_collisions_loop b ps)"

definition check_collisions :: "game \<Rightarrow> game" where
  "check_collisions s = (if check_collisions_loop (the_bird s) (pipes s) then do_game_over s else s)"

text \<open>The loop of \<^verbatim>\<open>_update_score\<close>, threading the score through the pipes.\<close>

fun update_score_loop :: "real \<Rightarrow> pipe list \<Rightarrow> int \<Rightarrow> pipe list \<times> int" where
  "update_score_loop bx [] sc = ([], sc)"
| "update_score_loop bx (p # ps) sc =
     (if \<not> passed p \<and> pipe_x p + real_of_int (width p) < bx
      then (let (ps', sc') = update_score_loop bx ps (sc + 1)
            in (p\<lparr> passed := True \<rparr> # ps', sc'))
      else (let (ps', sc') = update_score_loop bx ps sc in (p # ps', sc')))"

definition update_score :: "game \<Rightarrow> game" where
  "update_score s =
     (let (ps, sc) = update_score_loop (bird_x (the_bird s)) (pipes s) (score s)
      in s\<lparr> pipes := ps, score := sc \<rparr>)"

text \<open>\<^verbatim>\<open>_update_game\<close>: one frame.  \<open>now\<close> is the clock, \<open>g\<close> the draw for a new pipe.\<close>

definition update_game :: "real \<Rightarrow> int \<Rightarrow> game \<Rightarrow> game" where
  "update_game now g s =
     update_score (check_collisions (update_pipes g (update_bird_physics now s)))"

text \<open>
  One round of \<^verbatim>\<open>_game_loop\<close> in which the frame time has elapsed: the frame is
  computed only when the game is neither paused nor over.
\<close>

definition game_loop_frame :: "real \<Rightarrow> int \<Rightarrow> game \<Rightarrow> game" where
  "game_loop_frame now g s =
     (if is_running s then (if \<not> is_paused s \<and> \<not> game_over s then update_game now g s else s)
      else s)"

text \<open>What can happen to a game object, and the effect of a sequence of such events.\<close>

datatype event =
    Start real int int int
  | Stop
  | Pause
  | Reset real int int int
  | Difficulty real
  | Breathing string real real
  | Frame real int

fun step :: "event \<Rightarrow> game \<Rightarrow> game" where
  "step (Start now g0 g1 g2) s = start_game now g0 g1 g2 s"
| "step Stop s = stop_game s"
| "step Pause s = pause_game s"
| "step (Reset now g0 g1 g2) s = reset_game now g0 g1 g2 s"
| "step (Difficulty l) s = adjust_difficulty l s"
| "step (Breathing breath_type volume now) s = on_breathing_input breath_type volume now s"
| "step (Frame now g) s = game_loop_frame now g s"

fun exec :: "event list \<Rightarrow> game \<Rightarrow> game" where
  "exec [] s = s"
| "exec (e # es) s = exec es (step e s)"

section \<open>The words of the specification\<close>

text \<open>
  The conditions that the statements about collisions, the floor and the score speak of,
  as predicates on a bird and a pipe: the bounding box of the bird and the pipe overlap
  horizontally; the vertical extent \<open>[y - radius, y + radius]\<close> of the bird is not within
  the gap \<open>[gap_y, gap_y + gap_height]\<close>; the right edge of the pipe is strictly left of
  the bird's x.
\<close>

definition horizontally_overlaps :: "bird \<Rightarrow> pipe \<Rightarrow> bool" where
  "horizontally_overlaps b p \<longleftrightarrow>
     pipe_x p < bird_x b + real_of_int (radius b)
     \<and> bird_x b - real_of_int (radius b) < pipe_x p + real_of_int (width p)"

definition outside_gap :: "bird \<Rightarrow> pipe \<Rightarrow> bool" where
  "outside_gap b p \<longleftrightarrow>
     \<not> (gap_y p \<le> bird_y b - real_of_int (radius b)
        \<and> bird_y b + real_of_int (radius b) \<le> gap_y p + real_of_int (gap_height p))"

definition crossed :: "real \<Rightarrow> pipe \<Rightarrow> bool" where
  "crossed bx p \<longleftrightarrow> pipe_x p + real_of_int (width p) < bx"

text \<open>
  The position that a frame gives the bird before it is put back on the screen: the old
  position plus the velocity after gravity and the velocity limit.
\<close>

definition next_position :: "game \<Rightarrow> real" where
  "next_position s =
     bird_y (the_bird s)
     + max (- MAX_VELOCITY) (min MAX_VELOCITY (velocity_y (the_bird s) + GRAVITY s))"


section \<open>The bird through one frame\<close>

lemma the_bird_do_game_over: "the_bird (do_game_over s) = the_bird s"
  by (simp add: do_game_over_def Let_def)

lemma the_bird_update_pipes: "the_bird (update_pipes g s) = the_bird s"
  by (simp add: update_pipes_def generate_pipe_def generate_pipe_at_position_def Let_def)

lemma the_bird_check_collisions: "the_bird (check_collisions s) = the_bird s"
  by (simp add: check_collisions_def the_bird_do_game_over)

lemma the_bird_update_score: "the_bird (update_score s) = the_bird s"
  by (simp add: update_score_def split: prod.splits)

lemma the_bird_update_game: "the_bird (update_game now g s) = the_bird (update_bird_physics now s)"
  by (simp add: update_game_def the_bird_update_score the_bird_check_collisions
      the_bird_update_pipes)

lemma the_bird_expire_breathing_force: "the_bird (expire_breathing_force now s) = the_bird s"
  by (simp add: expire_breathing_force_def)

lemma the_bird_keep_bird_on_screen:
  "the_bird (keep_bird_on_screen s) =
   (if bird_y (the_bird s) < real_of_int (radius (the_bird s))
    then (the_bird s)\<lparr> bird_y := real_of_int (radius (the_bird s)), velocity_y := 0 \<rparr>
    else if bird_y (the_bird s) > GAME_HEIGHT - real_of_int (radius (the_bird s))
    then (the_bird s)\<lparr> bird_y := GAME_HEIGHT - real_of_int (radius (the_bird s)),
                        velocity_y := 0 \<rparr>
    else the_bird s)"
  by (simp add: keep_bird_on_screen_def the_bird_do_game_over)

text \<open>The velocity after gravity and the limit, and the position it leads to before the
  bird is put back on the screen.\<close>

lemma velocity_before_screen:
  "velocity_y (the_bird (update_position (limit_velocity
      (expire_breathing_force now (apply_gravity s))))) =
   max (- MAX_VELOCITY) (min MAX_VELOCITY (velocity_y (the_bird s) + GRAVITY s))"
  by (simp add: update_position_def limit_velocity_def the_bird_expire_breathing_force
      apply_gravity_def)

lemma position_before_screen:
  "bird_y (the_bird (update_position (limit_velocity
      (expire_breathing_force now (apply_gravity s))))) =
   bird_y (the_bird s) + max (- MAX_VELOCITY) (min MAX_VELOCITY (velocity_y (the_bird s) + GRAVITY s))"
  by (simp add: update_position_def limit_velocity_def the_bird_expire_breathing_force
      apply_gravity_def)

lemma radius_before_screen:
  "radius (the_bird (update_position (limit_velocity
      (expire_breathing_force now (apply_gravity s))))) = radius (the_bird s)"
  by (simp add: update_position_def limit_velocity_def the_bird_expire_breathing_force
      apply_gravity_def)


lemma radius_update_bird_physics:
  "radius (the_bird (update_bird_physics now s)) = radius (the_bird s)"
  by (simp add: update_bird_physics_def the_bird_keep_bird_on_screen radius_before_screen)


lemma physics_bounds:
  assumes "2 * real_of_int (radius (the_bird s)) \<le> GAME_HEIGHT"
  shows "- MAX_VELOCITY \<le> velocity_y (the_bird (update_bird_physics now s))
       \<and> velocity_y (the_bird (update_bird_physics now s)) \<le> MAX_VELOCITY
       \<and> real_of_int (radius (the_bird s)) \<le> bird_y (the_bird (update_bird_physics now s))
       \<and> bird_y (the_bird (update_bird_physics now s))
            \<le> GAME_HEIGHT - real_of_int (radius (the_bird s))"
  using assms
  by (simp add: update_bird_physics_def the_bird_keep_bird_on_screen radius_before_screen
      velocity_before_screen position_before_screen MAX_VELOCITY_def)

section \<open>Reset and the radius of the bird\<close>

lemma reset_game_eq:
  "reset_game now g0 g1 g2 s =
     s\<lparr> the_bird := Bird,
        pipes := [Pipe 800 (real_of_int g0), Pipe 1100 (real_of_int g1),
                  Pipe 1400 (real_of_int g2)],
        score := 0, game_over := False, start_time := now,
        breathing_force_active := False, breathing_force_timer := 0 \<rparr>"
  by (simp add: reset_game_def generate_initial_pipes_def generate_pipe_at_position_def
      GAME_WIDTH_def PIPE_SPAWN_DISTANCE_def)

lemma radius_on_breathing_input:
  "radius (the_bird (on_breathing_input t v now s)) = radius (the_bird s)"
  by (simp add: on_breathing_input_def Let_def)

lemma radius_step: "radius (the_bird s) = 20 \<Longrightarrow> radius (the_bird (step e s)) = 20"
  by (cases e) (simp_all add: start_game_def stop_game_def pause_game_def adjust_difficulty_def
      reset_game_eq Bird_def radius_on_breathing_input game_loop_frame_def the_bird_update_game
      radius_update_bird_physics)

lemma radius_exec: "radius (the_bird s) = 20 \<Longrightarrow> radius (the_bird (exec es s)) = 20"
  by (induction es arbitrary: s) (simp_all add: radius_step)

lemma radius_reachable: "radius (the_bird (exec es new_game)) = 20"
  by (rule radius_exec) (simp add: new_game_def Bird_def)

lemma started_game:
  "exec [Start now g0 g1 g2] new_game =
     new_game\<lparr> the_bird := Bird,
        pipes := [Pipe 800 (real_of_int g0), Pipe 1100 (real_of_int g1),
                  Pipe 1400 (real_of_int g2)],
        start_time := now, is_running := True \<rparr>"
  by (simp add: start_game_def reset_game_eq new_game_def)

section \<open>Claims about the game\<close>

text \<open>
  C2.  Take any state that a sequence of events (start, stop, pause, reset, difficulty
  changes, breathing inputs and frames, in any order) reaches from a new game.  If the
  game is running there (started, not paused, not over), then after the next frame the
  velocity of the bird lies in \<open>[- MAX_VELOCITY, MAX_VELOCITY]\<close> and its position in
  \<open>[radius, GAME_HEIGHT - radius]\<close>.
\<close>

theorem frame_keeps_velocity_and_position_bounded:
  assumes "s = exec es new_game"
    and "is_running s" and "\<not> is_paused s" and "\<not> game_over s"
    and "s' = game_loop_frame now g s"
  shows "- MAX_VELOCITY \<le> velocity_y (the_bird s') \<and> velocity_y (the_bird s') \<le> MAX_VELOCITY
       \<and> real_of_int (radius (the_bird s')) \<le> bird_y (the_bird s')
       \<and> bird_y (the_bird s') \<le> GAME_HEIGHT - real_of_int (radius (the_bird s'))"
proof -
  have r: "2 * real_of_int (radius (the_bird s)) \<le> GAME_HEIGHT"
    using assms(1) by (simp add: radius_reachable GAME_HEIGHT_def)
  have "the_bird s' = the_bird (update_bird_physics now s)"
    using assms by (simp add: game_loop_frame_def the_bird_update_game)
  with physics_bounds [OF r, of now] show ?thesis
    by (simp add: radius_update_bird_physics)
qed

theorem frame_keeps_velocity_and_position_bounded_witness:
  "is_running (exec [Start 0 250 300 350] new_game)
   \<and> \<not> is_paused (exec [Start 0 250 300 350] new_game)
   \<and> \<not> game_over (exec [Start 0 250 300 350] new_game)
   \<and> - MAX_VELOCITY
        \<le> velocity_y (the_bird (game_loop_frame 1 200 (exec [Start 0 250 300 350] new_game)))
   \<and> velocity_y (the_bird (game_loop_frame 1 200 (exec [Start 0 250 300 350] new_game)))
        \<le> MAX_VELOCITY
   \<and> real_of_int (radius (the_bird (game_loop_frame 1 200 (exec [Start 0 250 300 350] new_game))))
        \<le> bird_y (the_bird (game_loop_frame 1 200 (exec [Start 0 250 300 350] new_game)))
   \<and> bird_y (the_bird (game_loop_frame 1 200 (exec [Start 0 250 300 350] new_game)))
        \<le> GAME_HEIGHT
           - real_of_int (radius (the_bird (game_loop_frame 1 200
                                   (exec [Start 0 250 300 350] new_game))))"
proof -
  have a: "is_running (exec [Start 0 250 300 350] new_game)"
    and b: "\<not> is_paused (exec [Start 0 250 300 350] new_game)"
    and c: "\<not> game_over (exec [Start 0 250 300 350] new_game)"
    unfolding started_game by (simp_all add: new_game_def)
  from frame_keeps_velocity_and_position_bounded [OF refl a b c refl, of 1 200] a b c
  show ?thesis by blast
qed

text \<open>
  C10.  After every reset the bird is at x = 100, y = 250 with velocity 0 (and radius 20),
  the score is 0, the game is not over, the breathing force is not active, and there are
  exactly three pipes, at \<open>GAME_WIDTH\<close>, \<open>GAME_WIDTH + PIPE_SPAWN_DISTANCE\<close> and
  \<open>GAME_WIDTH + 2 * PIPE_SPAWN_DISTANCE\<close>, that is 800, 1100 and 1400, none of them passed.
\<close>

theorem reset_game_state:
  "the_bird (reset_game now g0 g1 g2 s)
     = \<lparr> bird_x = 100, bird_y = 250, velocity_y = 0, radius = 20 \<rparr>
   \<and> score (reset_game now g0 g1 g2 s) = 0
   \<and> \<not> game_over (reset_game now g0 g1 g2 s)
   \<and> \<not> breathing_force_active (reset_game now g0 g1 g2 s)
   \<and> length (pipes (reset_game now g0 g1 g2 s)) = 3
   \<and> map pipe_x (pipes (reset_game now g0 g1 g2 s))
       = [GAME_WIDTH, GAME_WIDTH + PIPE_SPAWN_DISTANCE, GAME_WIDTH + 2 * PIPE_SPAWN_DISTANCE]
   \<and> map pipe_x (pipes (reset_game now g0 g1 g2 s)) = [800, 1100, 1400]
   \<and> map passed (pipes (reset_game now g0 g1 g2 s)) = [False, False, False]"
  by (simp add: reset_game_eq Bird_def Pipe_def GAME_WIDTH_def PIPE_SPAWN_DISTANCE_def)

text \<open>
  C8, as amended.  \<^verbatim>\<open>on_breathing_input\<close> leaves the whole game state unchanged when the
  game is paused or over.  It does not look at \<^verbatim>\<open>is_running\<close>: that test is made by the
  callback of the session controllers, \<^verbatim>\<open>_on_breathing_detected\<close>, through which a
  breathing event leaves the state unchanged when the game is not running, paused or over.
\<close>

theorem breathing_input_ignored_when_paused_or_over:
  "(game_over s \<or> is_paused s \<longrightarrow> on_breathing_input breath_type volume now s = s)
   \<and> (\<not> is_running s \<or> game_over s \<or> is_paused s
        \<longrightarrow> on_breathing_detected breath_type volume now s = s)"
  by (simp add: on_breathing_input_def on_breathing_detected_def)

theorem breathing_input_ignored_when_paused_or_over_witness:
  "is_paused (pause_game new_game)
   \<and> on_breathing_input ''inhale'' 120 1 (pause_game new_game) = pause_game new_game
   \<and> \<not> is_running new_game
   \<and> on_breathing_detected ''inhale'' 120 1 new_game = new_game"
  using breathing_input_ignored_when_paused_or_over [of "pause_game new_game" "''inhale''" 120 1]
    breathing_input_ignored_when_paused_or_over [of new_game "''inhale''" 120 1]
  by (simp add: pause_game_def new_game_def)

text \<open>
  C8, as stated, fails in the idle state: a new game is not running (and neither paused
  nor over), and an inhale changes the velocity of its bird from 0 to -8 and sets the
  breathing-force flag.
\<close>

theorem breathing_input_applied_when_idle:
  "\<not> is_running new_game \<and> \<not> is_paused new_game \<and> \<not> game_over new_game
   \<and> velocity_y (the_bird new_game) = 0
   \<and> velocity_y (the_bird (on_breathing_input ''inhale'' 120 1 new_game)) = - 8
   \<and> \<not> breathing_force_active new_game
   \<and> breathing_force_active (on_breathing_input ''inhale'' 120 1 new_game)
   \<and> on_breathing_input ''inhale'' 120 1 new_game \<noteq> new_game"
proof -
  have v: "velocity_y (the_bird (on_breathing_input ''inhale'' 120 1 new_game)) = - 8"
    by (simp add: on_breathing_input_def new_game_def Bird_def BREATHING_FORCE_def)
  have f: "breathing_force_active (on_breathing_input ''inhale'' 120 1 new_game)"
    by (simp add: on_breathing_input_def new_game_def)
  have n: "\<not> breathing_force_active new_game"
    by (simp add: new_game_def)
  from f n have "on_breathing_input ''inhale'' 120 1 new_game \<noteq> new_game"
    by metis
  with v f n show ?thesis
    by (simp add: new_game_def Bird_def)
qed

lemma on_breathing_input_inhale:
  "\<not> game_over s \<Longrightarrow> \<not> is_paused s \<Longrightarrow>
   on_breathing_input ''inhale'' volume now s =
     s\<lparr> current_breathing := ''inhale'',
        the_bird := (the_bird s)\<lparr> velocity_y :=
                      max BREATHING_FORCE (velocity_y (the_bird s) + BREATHING_FORCE) \<rparr>,
        breathing_force_active := True, breathing_force_timer := now \<rparr>"
  by (simp add: on_breathing_input_def)

lemma on_breathing_input_exhale:
  "\<not> game_over s \<Longrightarrow> \<not> is_paused s \<Longrightarrow>
   on_breathing_input ''exhale'' volume now s =
     s\<lparr> current_breathing := ''exhale'',
        the_bird := (the_bird s)\<lparr> velocity_y :=
                      min EXHALE_FORCE (velocity_y (the_bird s) + EXHALE_FORCE) \<rparr>,
        breathing_force_active := True, breathing_force_timer := now \<rparr>"
  by (simp add: on_breathing_input_def)

text \<open>Any run of inhales, or of exhales, on a game that accepts input.\<close>

lemma inhales_bounded:
  "\<not> game_over s \<Longrightarrow> \<not> is_paused s \<Longrightarrow> es \<noteq> [] \<Longrightarrow>
   \<forall>e \<in> set es. \<exists>v t. e = Breathing ''inhale'' v t \<Longrightarrow>
   BREATHING_FORCE \<le> velocity_y (the_bird (exec es s))"
proof (induction es arbitrary: s)
  case Nil
  then show ?case by simp
next
  case (Cons e es)
  from Cons.prems obtain v t where e: "e = Breathing ''inhale'' v t" by auto
  show ?case
  proof (cases "es = []")
    case True
    with e Cons.prems show ?thesis by (simp add: on_breathing_input_inhale)
  next
    case False
    have "\<not> game_over (step e s)" "\<not> is_paused (step e s)"
      using e Cons.prems by (simp_all add: on_breathing_input_inhale)
    with Cons.IH [of "step e s"] False Cons.prems show ?thesis by simp
  qed
qed

lemma exhales_bounded:
  "\<not> game_over s \<Longrightarrow> \<not> is_paused s \<Longrightarrow> es \<noteq> [] \<Longrightarrow>
   \<forall>e \<in> set es. \<exists>v t. e = Breathing ''exhale'' v t \<Longrightarrow>
   velocity_y (the_bird (exec es s)) \<le> EXHALE_FORCE"
proof (induction es arbitrary: s)
  case Nil
  then show ?case by simp
next
  case (Cons e es)
  from Cons.prems obtain v t where e: "e = Breathing ''exhale'' v t" by auto
  show ?case
  proof (cases "es = []")
    case True
    with e Cons.prems show ?thesis by (simp add: on_breathing_input_exhale)
  next
    case False
    have "\<not> game_over (step e s)" "\<not> is_paused (step e s)"
      using e Cons.prems by (simp_all add: on_breathing_input_exhale)
    with Cons.IH [of "step e s"] False Cons.prems show ?thesis by simp
  qed
qed

lemma two_inhales_then_frame:
  "velocity_y (the_bird (exec [Start t0 g0 g1 g2, Breathing ''inhale'' v1 t1,
                               Breathing ''inhale'' v2 t2, Frame t3 g] new_game)) = - 7.5"
proof -
  let ?s0 = "exec [Start t0 g0 g1 g2] new_game"
  let ?s1 = "on_breathing_input ''inhale'' v1 t1 ?s0"
  let ?s2 = "on_breathing_input ''inhale'' v2 t2 ?s1"
  have s1: "the_bird ?s1 = Bird\<lparr> velocity_y := - 8 \<rparr> \<and> \<not> game_over ?s1 \<and> \<not> is_paused ?s1
            \<and> is_running ?s1 \<and> GRAVITY ?s1 = 0.5"
    unfolding started_game
    by (simp add: on_breathing_input_inhale new_game_def Bird_def BREATHING_FORCE_def)
  then have s2: "the_bird ?s2 = Bird\<lparr> velocity_y := - 8 \<rparr> \<and> \<not> game_over ?s2 \<and> \<not> is_paused ?s2
            \<and> is_running ?s2 \<and> GRAVITY ?s2 = 0.5"
    by (simp add: on_breathing_input_inhale Bird_def BREATHING_FORCE_def)
  have "velocity_y (the_bird (game_loop_frame t3 g ?s2)) = - 7.5"
    using s2
    by (simp add: game_loop_frame_def the_bird_update_game update_bird_physics_def
        the_bird_keep_bird_on_screen velocity_before_screen position_before_screen
        radius_before_screen Bird_def MAX_VELOCITY_def GAME_HEIGHT_def)
  then show ?thesis by simp
qed

text \<open>
  C5.  While the game accepts input (neither paused nor over), an inhale sets the
  velocity to \<open>max BREATHING_FORCE (velocity + BREATHING_FORCE)\<close> and an exhale sets it to
  \<open>min EXHALE_FORCE (velocity + EXHALE_FORCE)\<close>.  Hence after any non-empty run of inhales
  the velocity is not below \<open>BREATHING_FORCE\<close>, and after any non-empty run of exhales it
  is not above \<open>EXHALE_FORCE\<close>.  In particular, two inhales on a freshly started game
  (velocity 0, force -8) followed by one frame give velocity -7.5, not -15.5.
\<close>

theorem breathing_impulse_rule:
  assumes "\<not> game_over s" and "\<not> is_paused s"
  shows "velocity_y (the_bird (on_breathing_input ''inhale'' volume now s))
           = max BREATHING_FORCE (velocity_y (the_bird s) + BREATHING_FORCE)
       \<and> velocity_y (the_bird (on_breathing_input ''exhale'' volume now s))
           = min EXHALE_FORCE (velocity_y (the_bird s) + EXHALE_FORCE)
       \<and> (es \<noteq> [] \<and> (\<forall>e \<in> set es. \<exists>v t. e = Breathing ''inhale'' v t)
            \<longrightarrow> BREATHING_FORCE \<le> velocity_y (the_bird (exec es s)))
       \<and> (es \<noteq> [] \<and> (\<forall>e \<in> set es. \<exists>v t. e = Breathing ''exhale'' v t)
            \<longrightarrow> velocity_y (the_bird (exec es s)) \<le> EXHALE_FORCE)
       \<and> BREATHING_FORCE = - 8
       \<and> velocity_y (the_bird (exec [Start t0 g0 g1 g2] new_game)) = 0
       \<and> velocity_y (the_bird (exec [Start t0 g0 g1 g2, Breathing ''inhale'' v1 t1,
                                     Breathing ''inhale'' v2 t2, Frame t3 g] new_game)) = - 7.5"
proof -
  have 1: "velocity_y (the_bird (on_breathing_input ''inhale'' volume now s))
           = max BREATHING_FORCE (velocity_y (the_bird s) + BREATHING_FORCE)"
    using assms by (simp add: on_breathing_input_inhale)
  have 2: "velocity_y (the_bird (on_breathing_input ''exhale'' volume now s))
           = min EXHALE_FORCE (velocity_y (the_bird s) + EXHALE_FORCE)"
    using assms by (simp add: on_breathing_input_exhale)
  have 3: "es \<noteq> [] \<and> (\<forall>e \<in> set es. \<exists>v t. e = Breathing ''inhale'' v t)
            \<longrightarrow> BREATHING_FORCE \<le> velocity_y (the_bird (exec es s))"
    using assms inhales_bounded [of s es] by blast
  have 4: "es \<noteq> [] \<and> (\<forall>e \<in> set es. \<exists>v t. e = Breathing ''exhale'' v t)
            \<longrightarrow> velocity_y (the_bird (exec es s)) \<le> EXHALE_FORCE"
    using assms exhales_bounded [of s es] by blast
  have 5: "BREATHING_FORCE = - 8"
    by (simp add: BREATHING_FORCE_def)
  have 6: "velocity_y (the_bird (exec [Start t0 g0 g1 g2] new_game)) = 0"
    unfolding started_game by (simp add: Bird_def)
  note 7 = two_inhales_then_frame [of t0 g0 g1 g2 v1 t1 v2 t2 t3 g]
  show ?thesis
    by (intro conjI) (rule 1 2 3 4 5 6 7)+
qed

theorem breathing_impulse_rule_witness:
  "\<not> game_over (exec [Start 0 250 300 350] new_game)
   \<and> \<not> is_paused (exec [Start 0 250 300 350] new_game)
   \<and> velocity_y (the_bird (on_breathing_input ''inhale'' 200 1 (exec [Start 0 250 300 350] new_game)))
        = - 8
   \<and> velocity_y (the_bird (on_breathing_input ''exhale'' 200 1 (exec [Start 0 250 300 350] new_game)))
        = 4
   \<and> - 8 \<le> velocity_y (the_bird (exec [Breathing ''inhale'' 200 1, Breathing ''inhale'' 210 2]
                                      (exec [Start 0 250 300 350] new_game)))
   \<and> velocity_y (the_bird (exec [Breathing ''exhale'' 30 1, Breathing ''exhale'' 20 2]
                                      (exec [Start 0 250 300 350] new_game))) \<le> 4"
proof -
  let ?s = "exec [Start 0 250 300 350] new_game"
  have a: "\<not> game_over ?s" and b: "\<not> is_paused ?s"
    unfolding started_game by (simp_all add: new_game_def)
  have v: "velocity_y (the_bird ?s) = 0"
    unfolding started_game by (simp add: Bird_def)
  have i: "[Breathing ''inhale'' 200 1, Breathing ''inhale'' 210 2] \<noteq> []
           \<and> (\<forall>e \<in> set [Breathing ''inhale'' 200 1, Breathing ''inhale'' 210 2].
                 \<exists>v t. e = Breathing ''inhale'' v t)"
    by simp
  have e: "[Breathing ''exhale'' 30 1, Breathing ''exhale'' 20 2] \<noteq> []
           \<and> (\<forall>e \<in> set [Breathing ''exhale'' 30 1, Breathing ''exhale'' 20 2].
                 \<exists>v t. e = Breathing ''exhale'' v t)"
    by simp
  have i': "BREATHING_FORCE \<le> velocity_y (the_bird
              (exec [Breathing ''inhale'' 200 1, Breathing ''inhale'' 210 2] ?s))"
    using breathing_impulse_rule [OF a b, where volume = 200 and now = 1
        and es = "[Breathing ''inhale'' 200 1, Breathing ''inhale'' 210 2]",
        THEN conjunct2, THEN conjunct2, THEN conjunct1, THEN mp, OF i] .
  have e': "velocity_y (the_bird
              (exec [Breathing ''exhale'' 30 1, Breathing ''exhale'' 20 2] ?s)) \<le> EXHALE_FORCE"
    using breathing_impulse_rule [OF a b, where volume = 200 and now = 1
        and es = "[Breathing ''exhale'' 30 1, Breathing ''exhale'' 20 2]",
        THEN conjunct2, THEN conjunct2, THEN conjunct2, THEN conjunct1, THEN mp, OF e] .
  have v1: "velocity_y (the_bird (on_breathing_input ''inhale'' 200 1 ?s))
           = max BREATHING_FORCE (velocity_y (the_bird ?s) + BREATHING_FORCE)"
    and v2: "velocity_y (the_bird (on_breathing_input ''exhale'' 200 1 ?s))
           = min EXHALE_FORCE (velocity_y (the_bird ?s) + EXHALE_FORCE)"
    using breathing_impulse_rule [OF a b, where volume = 200 and now = 1 and es = "[]"]
    by (rule conjunct1, rule conjunct1 [OF conjunct2])
  have "velocity_y (the_bird (on_breathing_input ''inhale'' 200 1 ?s)) = - 8"
    unfolding v1 v by (simp add: BREATHING_FORCE_def)
  moreover have "velocity_y (the_bird (on_breathing_input ''exhale'' 200 1 ?s)) = 4"
    unfolding v2 v by (simp add: EXHALE_FORCE_def)
  moreover have "- 8 \<le> velocity_y (the_bird
              (exec [Breathing ''inhale'' 200 1, Breathing ''inhale'' 210 2] ?s))"
    using i' unfolding BREATHING_FORCE_def by (simp del: exec.simps)
  moreover have "velocity_y (the_bird
              (exec [Breathing ''exhale'' 30 1, Breathing ''exhale'' 20 2] ?s)) \<le> 4"
    using e' unfolding EXHALE_FORCE_def by (simp del: exec.simps)
  ultimately show ?thesis using a b by (intro conjI)
qed

section \<open>Claims about the classifier\<close>

lemma detect_breathing_applied:
  "breathing_state (detect_breathing v t d) \<noteq> breathing_state d \<Longrightarrow>
   t - last_state_change d > min_state_duration d
   \<and> last_state_change (detect_breathing v t d) = t"
  by (simp add: detect_breathing_def Let_def split: if_splits)

lemma detect_breathing_not_applied:
  "breathing_state (detect_breathing v t d) = breathing_state d \<Longrightarrow>
   detect_breathing v t d = d"
  by (auto simp add: detect_breathing_def Let_def split: if_splits)

lemma min_state_duration_detect_breathing:
  "min_state_duration (detect_breathing v t d) = min_state_duration d"
  by (simp add: detect_breathing_def Let_def)

lemma applied_times_separated:
  "successively (\<lambda>a b. b - a > min_state_duration d)
     (last_state_change d # applied_times rs d)"
proof (induction rs arbitrary: d)
  case Nil
  show ?case by simp
next
  case (Cons r rs)
  obtain v t where r: "r = (v, t)" by (cases r)
  let ?d' = "detect_breathing v t d"
  show ?case
  proof (cases "breathing_state ?d' = breathing_state d")
    case True
    then have "?d' = d" by (rule detect_breathing_not_applied)
    with Cons.IH [of d] r show ?thesis by simp
  next
    case False
    from detect_breathing_applied [OF False]
    have gap: "t - last_state_change d > min_state_duration d"
      and last: "last_state_change ?d' = t" by simp_all
    from Cons.IH [of ?d'] last
    have "successively (\<lambda>a b. b - a > min_state_duration d) (t # applied_times rs ?d')"
      by (simp add: min_state_duration_detect_breathing)
    with gap r False show ?thesis by simp
  qed
qed

lemma applied_times_all_pairs:
  assumes "0 \<le> min_state_duration d"
  shows "sorted_wrt (\<lambda>a b. b - a > min_state_duration d)
           (last_state_change d # applied_times rs d)"
proof -
  have "b - a > min_state_duration d \<Longrightarrow> c - b > min_state_duration d
          \<Longrightarrow> c - a > min_state_duration d" for a b c :: real
    using assms by linarith
  then have "successively (\<lambda>a b. b - a > min_state_duration d) xs
             \<longleftrightarrow> sorted_wrt (\<lambda>a b. b - a > min_state_duration d) xs" for xs
    by (intro successively_iff_sorted_wrt_strong) blast
  with applied_times_separated [of d rs] show ?thesis by blast
qed

lemma last_state_change_detect_all:
  "last_state_change (detect_all rs d) = last (last_state_change d # applied_times rs d)"
proof (induction rs arbitrary: d)
  case Nil
  show ?case by simp
next
  case (Cons r rs)
  obtain v t where r: "r = (v, t)" by (cases r)
  show ?case
  proof (cases "breathing_state (detect_breathing v t d) = breathing_state d")
    case True
    then have "detect_breathing v t d = d" by (rule detect_breathing_not_applied)
    with Cons.IH [of d] r show ?thesis by simp
  next
    case False
    from detect_breathing_applied [OF False]
    have "last_state_change (detect_breathing v t d) = t" by simp
    with Cons.IH [of "detect_breathing v t d"] r False show ?thesis by simp
  qed
qed

text \<open>
  C6.  A reading changes the breathing state only when the target state differs from the
  current one and more than \<open>min_state_duration\<close> has elapsed since the last applied
  change, and the change is then stamped with the time of the reading.  So for every
  sequence of (volume, timestamp) readings, the last change before the sequence and the
  times of the applied transitions form a list in which each entry exceeds the one
  before it by more than \<open>min_state_duration\<close> (0.3 in a new detector); when
  \<open>min_state_duration\<close> is not negative, any two entries of that list are more than
  \<open>min_state_duration\<close> apart.  The last entry is the time of the last change that the
  detector holds after the sequence.
\<close>

theorem applied_transitions_debounced:
  "successively (\<lambda>a b. b - a > min_state_duration d)
     (last_state_change d # applied_times rs d)
   \<and> (0 \<le> min_state_duration d \<longrightarrow>
        sorted_wrt (\<lambda>a b. b - a > min_state_duration d)
          (last_state_change d # applied_times rs d))
   \<and> last_state_change (detect_all rs d) = last (last_state_change d # applied_times rs d)
   \<and> (detect_breathing v t d \<noteq> d \<longrightarrow>
        breathing_state (detect_breathing v t d) \<noteq> breathing_state d
        \<and> t - last_state_change d > min_state_duration d
        \<and> last_state_change (detect_breathing v t d) = t)
   \<and> min_state_duration (new_detector cb sens now) = 0.3"
proof -
  have 1: "successively (\<lambda>a b. b - a > min_state_duration d)
             (last_state_change d # applied_times rs d)"
    by (rule applied_times_separated)
  have 2: "0 \<le> min_state_duration d \<longrightarrow>
        sorted_wrt (\<lambda>a b. b - a > min_state_duration d)
          (last_state_change d # applied_times rs d)"
    using applied_times_all_pairs [of d rs] by blast
  have 3: "last_state_change (detect_all rs d)
             = last (last_state_change d # applied_times rs d)"
    by (rule last_state_change_detect_all)
  have 4: "detect_breathing v t d \<noteq> d \<longrightarrow>
        breathing_state (detect_breathing v t d) \<noteq> breathing_state d
        \<and> t - last_state_change d > min_state_duration d
        \<and> last_state_change (detect_breathing v t d) = t"
    using detect_breathing_not_applied [of v t d] detect_breathing_applied [of v t d]
    by blast
  have 5: "min_state_duration (new_detector cb sens now) = 0.3"
    by (simp add: new_detector_def)
  show ?thesis by (intro conjI) (rule 1 2 3 4 5)+
qed

text \<open>A calibrated detector with thresholds 150 and 50, for the concrete instances.\<close>

lemma sample_detector_readings:
  "detect_breathing 200 1 ((new_detector True 1 0)\<lparr> inhale_threshold := 150,
       exhale_threshold := 50, is_calibrated := True \<rparr>)
   = (new_detector True 1 0)\<lparr> inhale_threshold := 150, exhale_threshold := 50,
       is_calibrated := True, breathing_state := Inhale, last_state_change := 1,
       calls := [(Inhale, 200)] \<rparr>"
  by (simp add: detect_breathing_def new_detector_def)

theorem applied_transitions_debounced_witness:
  "detect_breathing 200 1 ((new_detector True 1 0)\<lparr> inhale_threshold := 150,
       exhale_threshold := 50, is_calibrated := True \<rparr>)
     \<noteq> (new_detector True 1 0)\<lparr> inhale_threshold := 150,
       exhale_threshold := 50, is_calibrated := True \<rparr>
   \<and> breathing_state (detect_breathing 200 1 ((new_detector True 1 0)\<lparr> inhale_threshold := 150,
       exhale_threshold := 50, is_calibrated := True \<rparr>)) = Inhale
   \<and> 1 - last_state_change ((new_detector True 1 0)\<lparr> inhale_threshold := 150,
       exhale_threshold := 50, is_calibrated := True \<rparr>)
       > min_state_duration ((new_detector True 1 0)\<lparr> inhale_threshold := 150,
       exhale_threshold := 50, is_calibrated := True \<rparr>)
   \<and> applied_times [(200, 1), (20, 1.2), (20, 1.4)] ((new_detector True 1 0)\<lparr> inhale_threshold := 150,
       exhale_threshold := 50, is_calibrated := True \<rparr>) = [1, 1.4]"
proof -
  let ?d = "(new_detector True 1 0)\<lparr> inhale_threshold := 150,
       exhale_threshold := 50, is_calibrated := True \<rparr>"
  have ne: "detect_breathing 200 1 ?d \<noteq> ?d"
    unfolding sample_detector_readings by (simp add: new_detector_def)
  have st: "breathing_state (detect_breathing 200 1 ?d) = Inhale"
    unfolding sample_detector_readings by simp
  have ts: "applied_times [(200, 1), (20, 1.2), (20, 1.4)] ?d = [1, 1.4]"
    by (simp add: detect_breathing_def new_detector_def)
  note inst = applied_transitions_debounced [of ?d "[(200, 1), (20, 1.2), (20, 1.4)]" 200 1]
  from inst [THEN conjunct2, THEN conjunct2, THEN conjunct2, THEN conjunct1, THEN mp, OF ne]
  have "1 - last_state_change ?d > min_state_duration ?d" by (rule conjunct1 [OF conjunct2])
  with ne st ts show ?thesis by (intro conjI)
qed

text \<open>
  C7.  The trace of callback invocations grows by exactly one entry, the new state with
  the volume of the reading, when a transition is applied whose new state is inhale or
  exhale (and a callback is registered); in every other case it is unchanged.  In
  particular an applied transition into neutral changes the breathing state and the time
  of the last change and invokes nothing.
\<close>

theorem callback_on_inhale_exhale_only:
  "calls (detect_breathing v t d) =
     (if breathing_state (detect_breathing v t d) \<noteq> breathing_state d
         \<and> (breathing_state (detect_breathing v t d) = Inhale
              \<or> breathing_state (detect_breathing v t d) = Exhale)
         \<and> callback_set d
      then calls d @ [(breathing_state (detect_breathing v t d), v)]
      else calls d)
   \<and> (breathing_state (detect_breathing v t d) = Neutral \<longrightarrow>
        calls (detect_breathing v t d) = calls d)
   \<and> (breathing_state d \<noteq> Neutral \<and> \<not> v > inhale_threshold d \<and> \<not> v < exhale_threshold d
        \<and> t - last_state_change d > min_state_duration d \<longrightarrow>
        breathing_state (detect_breathing v t d) = Neutral
        \<and> last_state_change (detect_breathing v t d) = t
        \<and> calls (detect_breathing v t d) = calls d)"
  by (simp add: detect_breathing_def Let_def)

theorem callback_on_inhale_exhale_only_witness:
  "calls (detect_breathing 200 1 ((new_detector True 1 0)\<lparr> inhale_threshold := 150,
       exhale_threshold := 50, is_calibrated := True \<rparr>)) = [(Inhale, 200)]
   \<and> breathing_state (detect_breathing 100 2 (detect_breathing 200 1
       ((new_detector True 1 0)\<lparr> inhale_threshold := 150,
       exhale_threshold := 50, is_calibrated := True \<rparr>))) = Neutral
   \<and> last_state_change (detect_breathing 100 2 (detect_breathing 200 1
       ((new_detector True 1 0)\<lparr> inhale_threshold := 150,
       exhale_threshold := 50, is_calibrated := True \<rparr>))) = 2
   \<and> calls (detect_breathing 100 2 (detect_breathing 200 1
       ((new_detector True 1 0)\<lparr> inhale_threshold := 150,
       exhale_threshold := 50, is_calibrated := True \<rparr>))) = [(Inhale, 200)]"
proof -
  let ?d = "(new_detector True 1 0)\<lparr> inhale_threshold := 150,
       exhale_threshold := 50, is_calibrated := True \<rparr>"
  let ?d1 = "detect_breathing 200 1 ?d"
  have h: "breathing_state ?d1 \<noteq> Neutral \<and> \<not> 100 > inhale_threshold ?d1
           \<and> \<not> 100 < exhale_threshold ?d1
           \<and> 2 - last_state_change ?d1 > min_state_duration ?d1"
    unfolding sample_detector_readings by (simp add: new_detector_def)
  have c: "calls ?d1 = [(Inhale, 200)]"
    unfolding sample_detector_readings by simp
  from callback_on_inhale_exhale_only [of 100 2 ?d1, THEN conjunct2, THEN conjunct2,
      THEN mp, OF h] c
  show ?thesis by simp
qed

section \<open>Rounding to a double\<close>

lemma exponent_bounds:
  assumes "0 < x"
  shows "2 powi (exponent x) \<le> x" and "x < 2 powi (exponent x + 1)"
proof -
  have "2 powi (exponent x) \<le> x \<and> x < 2 powi (exponent x + 1)"
  proof (cases "1 \<le> x")
    case True
    let ?n = "\<lfloor>x\<rfloor>"
    from True have n: "0 < ?n" by simp
    from bitlen_bounds [OF n]
    have lo: "2 ^ nat (bitlen ?n - 1) \<le> ?n" and hi: "?n < 2 ^ nat (bitlen ?n)" by simp_all
    from n have b1: "1 \<le> bitlen ?n" by (simp add: bitlen_alt_def)
    have e: "exponent x = bitlen ?n - 1" using True by (simp add: exponent_def)
    have "real_of_int (2 ^ nat (bitlen ?n - 1)) \<le> real_of_int ?n"
      using lo by (simp only: of_int_le_iff)
    also have "\<dots> \<le> x" by simp
    finally have 1: "2 powi (exponent x) \<le> x"
      using b1 by (simp add: e power_int_def)
    from hi have "?n + 1 \<le> 2 ^ nat (bitlen ?n)" by simp
    then have "real_of_int (?n + 1) \<le> real_of_int (2 ^ nat (bitlen ?n))"
      by (simp only: of_int_le_iff)
    moreover have "x < real_of_int (?n + 1)" by simp
    ultimately have "x < real_of_int (2 ^ nat (bitlen ?n))" by linarith
    then have 2: "x < 2 powi (exponent x + 1)"
      using b1 by (simp add: e power_int_def)
    from 1 2 show ?thesis by simp
  next
    case False
    define y where "y = 1 / x"
    define m where "m = \<lceil>y\<rceil> - 1"
    define k where "k = nat (bitlen m)"
    from False assms have y1: "1 < y" by (simp add: y_def)
    then have m: "0 < m" unfolding m_def by linarith
    have my: "real_of_int m < y" "y \<le> real_of_int m + 1" unfolding m_def by linarith+
    from bitlen_bounds [OF m]
    have lo: "2 ^ nat (bitlen m - 1) \<le> m" and hi: "m < 2 ^ k" by (simp_all add: k_def)
    from m have b1: "1 \<le> bitlen m" by (simp add: bitlen_alt_def)
    then have k: "bitlen m = int k" "nat (bitlen m - 1) = k - 1" "0 < k"
      by (simp_all add: k_def)
    have e: "exponent x = - int k"
      using False by (simp add: exponent_def m_def y_def k_def bitlen_nonneg)
    from hi have "m + 1 \<le> 2 ^ k" by simp
    then have "real_of_int (m + 1) \<le> real_of_int (2 ^ k)"
      by (simp only: of_int_le_iff)
    then have "real_of_int m + 1 \<le> 2 ^ k" by simp
    with my have yhi: "y \<le> 2 ^ k" by linarith
    have "real_of_int (2 ^ (k - 1)) \<le> real_of_int m"
      using lo [unfolded k(2)] by (simp only: of_int_le_iff)
    then have "2 ^ (k - 1) \<le> real_of_int m" by simp
    with my have ylo: "(2::real) ^ (k - 1) < y" by linarith
    have x: "x = 1 / y" using assms by (simp add: y_def)
    have ypos: "0 < y" using y1 by simp
    from yhi ypos have "1 / 2 ^ k \<le> x"
      unfolding x by (simp add: field_simps)
    moreover have "2 powi (exponent x) = 1 / (2::real) ^ k"
      unfolding e by (simp add: power_int_minus field_simps)
    ultimately have 1: "2 powi (exponent x) \<le> x" by simp
    from ylo ypos have "x < 1 / 2 ^ (k - 1)"
      unfolding x by (simp add: field_simps)
    moreover have "exponent x + 1 = - int (k - 1)" using k(3) by (simp add: e)
    then have "2 powi (exponent x + 1) = 1 / (2::real) ^ (k - 1)"
      by (simp add: power_int_minus field_simps)
    ultimately have 2: "x < 2 powi (exponent x + 1)" by simp
    from 1 2 show ?thesis by simp
  qed
  then show "2 powi (exponent x) \<le> x" and "x < 2 powi (exponent x + 1)" by simp_all
qed

lemma round_even_error: "\<bar>real_of_int (round_even y) - y\<bar> \<le> 1 / 2"
  unfolding round_even_def Let_def by simp

lemma round_even_nonneg: "0 \<le> y \<Longrightarrow> 0 \<le> round_even y"
  unfolding round_even_def Let_def by simp

lemma round_even_small: "0 \<le> y \<Longrightarrow> y \<le> 1 / 2 \<Longrightarrow> round_even y = 0"
proof -
  assume a: "0 \<le> y" "y \<le> 1 / 2"
  then have "\<lfloor>y\<rfloor> = 0" by linarith
  with a show ?thesis by (simp add: round_even_def)
qed

lemma rnd_pos:
  assumes "0 < x"
  shows "rnd x = real_of_int (round_even (x / 2 powi (max (exponent x) (- 1022) - 52)))
                   * 2 powi (max (exponent x) (- 1022) - 52)"
  using assms by (simp add: rnd_def Let_def)

lemma rnd_minus: "rnd (- x) = - rnd x"
  by (simp add: rnd_def Let_def)

lemma rnd_error_pos:
  assumes "0 < x"
  shows "\<bar>rnd x - x\<bar> \<le> x / 2 ^ 53 + 2 powi (- 1075)"
proof -
  define e where "e = max (exponent x) (- 1022)"
  define q :: real where "q = 2 powi (e - 52)"
  define r where "r = real_of_int (round_even (x / q))"
  have q: "0 < q" by (simp add: q_def)
  have rx: "rnd x = r * q"
    using rnd_pos [OF assms] by (simp add: r_def q_def e_def)
  have "\<bar>r - x / q\<bar> \<le> 1 / 2"
    unfolding r_def by (rule round_even_error)
  then have "\<bar>r - x / q\<bar> * q \<le> 1 / 2 * q"
    using q by (intro mult_right_mono) simp_all
  moreover have "\<bar>r - x / q\<bar> * q = \<bar>r * q - x\<bar>"
  proof -
    have "\<bar>r - x / q\<bar> * q = \<bar>(r - x / q) * q\<bar>" using q by (simp add: abs_mult)
    also have "(r - x / q) * q = r * q - x" using q by (simp add: field_simps)
    finally show ?thesis .
  qed
  ultimately have err: "\<bar>rnd x - x\<bar> \<le> q / 2" by (simp add: rx)
  have half: "q / 2 = 2 powi (e - 53)"
  proof -
    have "(2::real) powi (e - 52) = 2 powi (e - 53 + 1)" by simp
    also have "\<dots> = 2 powi (e - 53) * 2" by (subst power_int_add) simp_all
    finally show ?thesis by (simp add: q_def)
  qed
  show ?thesis
  proof (cases "- 1022 \<le> exponent x")
    case True
    then have "e = exponent x" by (simp add: e_def)
    then have "q / 2 = 2 powi (exponent x) / 2 ^ 53"
      unfolding half by (simp add: power_int_diff)
    also have "\<dots> \<le> x / 2 ^ 53"
      using exponent_bounds(1) [OF assms] by (simp add: divide_right_mono)
    finally have "q / 2 \<le> x / 2 ^ 53" .
    moreover have "0 \<le> (2::real) powi (- 1075)" by simp
    ultimately show ?thesis using err by linarith
  next
    case False
    then have "e = - 1022" by (simp add: e_def)
    then have "q / 2 = 2 powi (- 1075)" unfolding half by simp
    moreover have "0 \<le> x / 2 ^ 53" using assms by simp
    ultimately show ?thesis using err by linarith
  qed
qed

lemma rnd_error: "\<bar>rnd x - x\<bar> \<le> \<bar>x\<bar> / 2 ^ 53 + 2 powi (- 1075)"
proof -
  consider "x = 0" | "0 < x" | "x < 0" by linarith
  then show ?thesis
  proof cases
    case 1
    then show ?thesis by (simp add: rnd_def)
  next
    case 2
    with rnd_error_pos [OF 2] show ?thesis by simp
  next
    case 3
    then have "0 < - x" by simp
    from rnd_error_pos [OF this] 3 show ?thesis by (simp add: rnd_minus)
  qed
qed

lemma rnd_nonneg: "0 \<le> x \<Longrightarrow> 0 \<le> rnd x"
proof (cases "x = 0")
  case True
  then show ?thesis by (simp add: rnd_def)
next
  case False
  assume "0 \<le> x"
  with False have x: "0 < x" by simp
  have "0 \<le> round_even (x / 2 powi (max (exponent x) (- 1022) - 52))"
    using x by (intro round_even_nonneg) simp
  then show ?thesis unfolding rnd_pos [OF x] by simp
qed

lemma rnd_nonpos: "x \<le> 0 \<Longrightarrow> rnd x \<le> 0"
  using rnd_nonneg [of "- x"] by (simp add: rnd_minus)

lemma rnd_le_double:
  assumes "0 \<le> x"
  shows "rnd x \<le> 2 * x"
proof (cases "x = 0")
  case True
  then show ?thesis by (simp add: rnd_def)
next
  case False
  with assms have x: "0 < x" by simp
  define q :: real where "q = 2 powi (max (exponent x) (- 1022) - 52)"
  have q: "0 < q" by (simp add: q_def)
  have rx: "rnd x = real_of_int (round_even (x / q)) * q"
    using rnd_pos [OF x] by (simp add: q_def)
  have y: "0 \<le> x / q" using x q by simp
  show ?thesis
  proof (cases "x / q \<le> 1 / 2")
    case True
    with y have "round_even (x / q) = 0" by (rule round_even_small)
    with x show ?thesis by (simp add: rx)
  next
    case False
    from round_even_error [of "x / q"]
    have "real_of_int (round_even (x / q)) \<le> x / q + 1 / 2" by linarith
    with False have "real_of_int (round_even (x / q)) \<le> 2 * (x / q)" by linarith
    then have "real_of_int (round_even (x / q)) * q \<le> 2 * (x / q) * q"
      using q by (intro mult_right_mono) simp_all
    also have "\<dots> = 2 * x" using q by simp
    finally show ?thesis by (simp add: rx)
  qed
qed

section \<open>Calibration\<close>

lemma valid_volumes_nonneg: "x \<in> set (valid_volumes vs) \<Longrightarrow> 0 \<le> x"
proof (induction vs)
  case Nil
  then show ?case by simp
next
  case (Cons a vs)
  then show ?case by (cases a) (auto split: if_splits)
qed

lemma valid_volumes_append:
  "valid_volumes (vs @ ws) = valid_volumes vs @ valid_volumes ws"
  by (induction vs rule: valid_volumes.induct) simp_all

lemma valid_volumes_replicate_Fin:
  "valid_volumes (replicate n (Fin v)) = (if 0 \<le> v then replicate n v else [])"
  by (induction n) simp_all

lemma valid_volumes_replicate_NaN: "valid_volumes (replicate n NaN) = []"
  by (induction n) simp_all

lemma is_calibrated_auto_calibrate:
  "50 \<le> length (calibration_samples d) \<Longrightarrow> is_calibrated (auto_calibrate np d)"
  by (simp add: auto_calibrate_def Let_def split: prod.splits)

text \<open>
  C9.  When calibration is computed (\<^verbatim>\<open>_auto_calibrate\<close> gets past its first test, which
  needs 50 samples in the buffer; \<^verbatim>\<open>_collect_calibration_data\<close> calls it from the 100th
  sample on) and fewer than 10 finite non-negative values remain after filtering, the
  baseline becomes 100, the inhale threshold 150, the exhale threshold 50 and the
  detector is marked calibrated.  Whatever the samples are, the detector is calibrated
  once the buffer has reached 100 samples.  Nothing is assumed of numpy.
\<close>

theorem calibration_falls_back_to_defaults:
  "(50 \<le> length (calibration_samples d)
      \<and> length (valid_volumes (calibration_samples d)) < 10 \<longrightarrow>
      auto_calibrate np d = d\<lparr> baseline_volume := 100.0, inhale_threshold := 150.0,
                               exhale_threshold := 50.0, is_calibrated := True \<rparr>)
   \<and> (100 \<le> length (calibration_samples d @ [v])
      \<and> length (valid_volumes (calibration_samples d @ [v])) < 10 \<longrightarrow>
      collect_calibration_data np v d =
        d\<lparr> calibration_samples := calibration_samples d @ [v],
           baseline_volume := 100.0, inhale_threshold := 150.0,
           exhale_threshold := 50.0, is_calibrated := True \<rparr>)
   \<and> (100 \<le> length (calibration_samples d @ [v]) \<longrightarrow>
        is_calibrated (collect_calibration_data np v d))"
proof -
  have "100 \<le> length (calibration_samples d @ [v]) \<longrightarrow>
        is_calibrated (collect_calibration_data np v d)"
    by (simp add: collect_calibration_data_def is_calibrated_auto_calibrate)
  then show ?thesis
    by (simp add: auto_calibrate_def collect_calibration_data_def)
qed

theorem calibration_falls_back_to_defaults_witness:
  "50 \<le> length (calibration_samples
            ((new_detector True 1 0)\<lparr> calibration_samples := replicate 100 NaN \<rparr>))
   \<and> length (valid_volumes (calibration_samples
            ((new_detector True 1 0)\<lparr> calibration_samples := replicate 100 NaN \<rparr>))) < 10
   \<and> auto_calibrate numpy_reference
         ((new_detector True 1 0)\<lparr> calibration_samples := replicate 100 NaN \<rparr>)
       = (new_detector True 1 0)\<lparr> calibration_samples := replicate 100 NaN,
            baseline_volume := 100, inhale_threshold := 150, exhale_threshold := 50,
            is_calibrated := True \<rparr>"
proof -
  let ?d = "(new_detector True 1 0)\<lparr> calibration_samples := replicate 100 NaN \<rparr>"
  have h: "50 \<le> length (calibration_samples ?d)
           \<and> length (valid_volumes (calibration_samples ?d)) < 10"
    by (simp add: valid_volumes_replicate_NaN)
  from calibration_falls_back_to_defaults [of ?d numpy_reference, THEN conjunct1, THEN mp, OF h] h
  show ?thesis by (simp add: new_detector_def)
qed

section \<open>Thresholds in double precision\<close>

lemma double_constants:
  "rnd 1.2 = 5404319552844595 / 4503599627370496"
  "rnd 0.8 = 3602879701896397 / 4503599627370496"
  "rnd 0.3 = 5404319552844595 / 18014398509481984"
  "rnd 0.4 = 3602879701896397 / 9007199254740992"
  by code_simp+

lemma rnd_bounds:
  "x - \<bar>x\<bar> / 9007199254740992 - 2 powi (- 1075) \<le> rnd x"
  "rnd x \<le> x + \<bar>x\<bar> / 9007199254740992 + 2 powi (- 1075)"
  using rnd_error [of x] by simp_all

lemma underflow_unit_small: "(2::real) powi (- 1075) \<le> 1 / 1267650600228229401496703205376"
proof -
  have "(2::real) powi (- 1075) \<le> 2 powi (- 100)"
    by (rule power_int_increasing) simp_all
  also have "\<dots> = 1 / 1267650600228229401496703205376" by (simp add: power_int_minus)
  finally show ?thesis .
qed

lemma thresholds_separated:
  assumes b: "0 < b" and sd: "0 \<le> sd" and m: "0 \<le> m"
    and t: "thresholds b sd m = (i, e)"
  shows "b < i \<and> (e = 1 \<or> (e < b \<and> (1 - 1 / 2 ^ 49) * max 20 (0.4 * b) \<le> i - e))"
proof -
  define \<epsilon> :: real where "\<epsilon> = 2 powi (- 1075)"
  have eps: "0 \<le> \<epsilon>" "\<epsilon> \<le> 1 / 1267650600228229401496703205376"
    by (simp_all add: \<epsilon>_def underflow_unit_small)
  note lo = rnd_bounds(1) [folded \<epsilon>_def] and hi = rnd_bounds(2) [folded \<epsilon>_def]
  define s where "s = rnd (sd * m)"
  define k where "k = rnd (s * (5404319552844595 / 4503599627370496))"
  define k' where "k' = rnd (s * (3602879701896397 / 4503599627370496))"
  define i0 where "i0 = rnd (b + k)"
  define b3 where "b3 = rnd (b * (5404319552844595 / 18014398509481984))"
  define bk where "bk = rnd (b - k')"
  define e0 where "e0 = max b3 bk"
  define rD where "rD = rnd (i0 - e0)"
  define p where "p = rnd (b * (3602879701896397 / 9007199254740992))"
  define ms where "ms = max 20 p"
  define h where "h = rnd (ms / 2)"
  define ir where "ir = rnd (b + h)"
  define z where "z = rnd (b - h)"
  have "thresholds b sd m = (if \<bar>rD\<bar> < ms then (ir, max 1 z) else (i0, e0))"
    unfolding thresholds_def Let_def fadd_def fsub_def fmul_def fdiv_def double_constants
      s_def k_def k'_def i0_def b3_def bk_def e0_def rD_def p_def ms_def h_def ir_def z_def
    by simp
  with t have t': "(i, e) = (if \<bar>rD\<bar> < ms then (ir, max 1 z) else (i0, e0))"
    by simp
  have ms20: "20 \<le> ms" and msp: "p \<le> ms" by (simp_all add: ms_def)
  have p1: "b * (3602879701896397 / 9007199254740992)
             - b * (3602879701896397 / 9007199254740992) / 9007199254740992 - \<epsilon> \<le> p"
    using lo [of "b * (3602879701896397 / 9007199254740992)"] b by (simp add: p_def)
  show ?thesis
  proof (cases "\<bar>rD\<bar> < ms")
    case True
    with t' have i: "i = ir" and e: "e = max 1 z" by simp_all
    have h1: "ms / 2 - ms / 2 / 9007199254740992 - \<epsilon> \<le> h"
      using lo [of "ms / 2"] ms20 by (simp add: h_def)
    have hpos: "0 < h" using h1 ms20 eps by (simp add: field_simps)
    have ir1: "(b + h) - (b + h) / 9007199254740992 - \<epsilon> \<le> ir"
      using lo [of "b + h"] b hpos by (simp add: ir_def)
    have A: "b < i"
      unfolding i using b eps ms20 msp p1 h1 ir1 by (simp add: field_simps)
    have B: "e = 1 \<or> (e < b \<and> (1 - 1 / 562949953421312) * max 20 (0.4 * b) \<le> i - e)"
    proof (cases "z \<le> 1")
      case True
      then show ?thesis by (simp add: e)
    next
      case False
      then have ez: "e = z" by (simp add: e)
      have bh: "0 < b - h"
      proof (rule ccontr)
        assume "\<not> 0 < b - h"
        then have "rnd (b - h) \<le> 0" by (intro rnd_nonpos) simp
        with False show False by (simp add: z_def)
      qed
      have z2: "z \<le> (b - h) + (b - h) / 9007199254740992 + \<epsilon>"
        using hi [of "b - h"] bh by (simp add: z_def)
      have 1: "z < b"
        using b eps ms20 msp p1 h1 z2 bh by (simp add: field_simps)
      have 2: "(1 - 1 / 562949953421312) * 20 \<le> ir - z"
        using b eps ms20 msp p1 h1 z2 ir1 bh by (simp add: field_simps)
      have 3: "(1 - 1 / 562949953421312) * (0.4 * b) \<le> ir - z"
        using b eps ms20 msp p1 h1 z2 ir1 bh by (simp add: field_simps)
      from 2 3 have "(1 - 1 / 562949953421312) * max 20 (0.4 * b) \<le> ir - z"
        by (simp add: max_def)
      with 1 show ?thesis by (simp add: ez i)
    qed
    from A B show ?thesis by simp
  next
    case False
    with t' have i: "i = i0" and e: "e = e0" by simp_all
    from False have sep: "ms \<le> \<bar>rD\<bar>" by simp
    have s0: "0 \<le> s" unfolding s_def using sd m by (intro rnd_nonneg) simp
    have k0: "0 \<le> k" unfolding k_def using s0 by (intro rnd_nonneg) simp
    have k'0: "0 \<le> k'" unfolding k'_def using s0 by (intro rnd_nonneg) simp
    have k1: "s * (5404319552844595 / 4503599627370496)
               - s * (5404319552844595 / 4503599627370496) / 9007199254740992 - \<epsilon> \<le> k"
      using lo [of "s * (5404319552844595 / 4503599627370496)"] s0 by (simp add: k_def)
    have k2: "k \<le> s * (5404319552844595 / 4503599627370496)
               + s * (5404319552844595 / 4503599627370496) / 9007199254740992 + \<epsilon>"
      using hi [of "s * (5404319552844595 / 4503599627370496)"] s0 by (simp add: k_def)
    have k'1: "s * (3602879701896397 / 4503599627370496)
               - s * (3602879701896397 / 4503599627370496) / 9007199254740992 - \<epsilon> \<le> k'"
      using lo [of "s * (3602879701896397 / 4503599627370496)"] s0 by (simp add: k'_def)
    have k'2: "k' \<le> s * (3602879701896397 / 4503599627370496)
               + s * (3602879701896397 / 4503599627370496) / 9007199254740992 + \<epsilon>"
      using hi [of "s * (3602879701896397 / 4503599627370496)"] s0 by (simp add: k'_def)
    have i1: "(b + k) - (b + k) / 9007199254740992 - \<epsilon> \<le> i0"
      using lo [of "b + k"] b k0 by (simp add: i0_def)
    have i2: "i0 \<le> (b + k) + (b + k) / 9007199254740992 + \<epsilon>"
      using hi [of "b + k"] b k0 by (simp add: i0_def)
    have b3u: "b3 \<le> 2 * (b * (5404319552844595 / 18014398509481984))"
      unfolding b3_def using b by (intro rnd_le_double) simp
    have abs_bk: "\<bar>b - k'\<bar> \<le> b + k'" using b k'0 by (simp add: field_simps)
    have bk1: "(b - k') - (b + k') / 9007199254740992 - \<epsilon> \<le> bk"
    proof -
      have "\<bar>b - k'\<bar> / 9007199254740992 \<le> (b + k') / 9007199254740992"
        using abs_bk by (simp add: divide_right_mono)
      with lo [of "b - k'"] show ?thesis unfolding bk_def by linarith
    qed
    have bk2: "bk \<le> (b - k') + (b + k') / 9007199254740992 + \<epsilon>"
    proof -
      have "\<bar>b - k'\<bar> / 9007199254740992 \<le> (b + k') / 9007199254740992"
        using abs_bk by (simp add: divide_right_mono)
      with hi [of "b - k'"] show ?thesis unfolding bk_def by linarith
    qed
    have e0bk: "bk \<le> e0" by (simp add: e0_def)
    have "b3 \<le> b + b / 9007199254740992 + \<epsilon>"
      using b3u b eps by (simp add: field_simps)
    moreover have "bk \<le> b + b / 9007199254740992 + \<epsilon>"
      using bk2 k'0 b eps by (simp add: field_simps)
    ultimately have e0u: "e0 \<le> b + b / 9007199254740992 + \<epsilon>"
      by (simp add: e0_def)
    have i0l: "b - b / 9007199254740992 - \<epsilon> \<le> i0"
      using i1 k0 by (simp add: field_simps)
    have Dpos: "0 < i0 - e0"
    proof (rule ccontr)
      assume n: "\<not> 0 < i0 - e0"
      then have "rD \<le> 0" unfolding rD_def by (intro rnd_nonpos) simp
      moreover have "(i0 - e0) - \<bar>i0 - e0\<bar> / 9007199254740992 - \<epsilon> \<le> rD"
        unfolding rD_def by (rule lo)
      moreover have "\<bar>i0 - e0\<bar> = e0 - i0" using n by simp
      ultimately have "\<bar>rD\<bar> \<le> (e0 - i0) + (e0 - i0) / 9007199254740992 + \<epsilon>" by (simp add: field_simps)
      with sep have "ms \<le> (e0 - i0) + (e0 - i0) / 9007199254740992 + \<epsilon>" by (simp add: field_simps)
      with e0u i0l ms20 msp p1 b eps show False by (simp add: field_simps)
    qed
    have rD0: "0 \<le> rD" unfolding rD_def using Dpos by (intro rnd_nonneg) simp
    have rD2: "rD \<le> (i0 - e0) + (i0 - e0) / 9007199254740992 + \<epsilon>"
      using hi [of "i0 - e0"] Dpos by (simp add: rD_def)
    from sep rD0 rD2 have D: "ms \<le> (i0 - e0) + (i0 - e0) / 9007199254740992 + \<epsilon>" by (simp add: field_simps)
    have Dk: "i0 - e0 \<le> 2 * b / 9007199254740992 + (k + k') + (k + k') / 9007199254740992 + 2 * \<epsilon>"
      using i2 bk1 e0bk by (simp add: field_simps)
    have klow: "11 \<le> k \<and> b / 5 \<le> k"
      using D Dk ms20 msp p1 k1 k'2 s0 b eps by (simp add: field_simps)
    have A: "b < i"
      unfolding i using i1 klow b eps by (simp add: field_simps)
    have k'low: "7 \<le> k' \<and> b / 8 \<le> k'"
      using klow k2 k'1 s0 b eps by (simp add: field_simps)
    have "b3 < b"
      using b3u b by (simp add: field_simps)
    moreover have "bk < b"
      using bk2 k'low b eps by (simp add: field_simps)
    ultimately have 1: "e0 < b"
      by (simp add: e0_def)
    have 2: "(1 - 1 / 562949953421312) * 20 \<le> i0 - e0"
      using D ms20 eps by (simp add: field_simps)
    have 3: "(1 - 1 / 562949953421312) * (0.4 * b) \<le> i0 - e0"
      using D ms20 msp p1 b eps by (simp add: field_simps)
    from 2 3 have "(1 - 1 / 562949953421312) * max 20 (0.4 * b) \<le> i0 - e0"
      by (simp add: max_def)
    with 1 A show ?thesis by (simp add: i e)
  qed
qed

lemma mean_nonneg: "\<forall>x \<in> set xs. 0 \<le> x \<Longrightarrow> 0 \<le> mean xs"
  by (simp add: mean_def sum_list_nonneg)

lemma std_nonneg: "0 \<le> std xs"
  unfolding std_def by (rule real_sqrt_ge_zero, rule mean_nonneg) simp

lemma median_nonneg:
  assumes "\<forall>x \<in> set xs. 0 \<le> x" and "xs \<noteq> []"
  shows "0 \<le> median xs"
proof -
  have nth: "0 \<le> sort xs ! j" if "j < length xs" for j
  proof -
    from that have "j < length (sort xs)" by simp
    then have "sort xs ! j \<in> set (sort xs)" by (rule nth_mem)
    with assms(1) show ?thesis by simp
  qed
  from assms(2) have "0 < length xs" by simp
  then have l: "length xs div 2 < length xs" "length xs div 2 - 1 < length xs"
    by arith+
  have a: "0 \<le> sort xs ! (length xs div 2)"
    by (rule nth) (rule l)
  have b: "0 \<le> sort xs ! (length xs div 2 - 1)"
    by (rule nth) (rule l)
  from a b show ?thesis by (simp add: median_def Let_def)
qed

lemma numpy_reference_nonneg:
  assumes "\<forall>x \<in> set xs. 0 \<le> x" and "xs \<noteq> []"
  shows "0 \<le> np_median numpy_reference xs" and "0 \<le> np_std numpy_reference xs"
  using median_nonneg [OF assms] std_nonneg [of xs]
  by (simp_all add: numpy_reference_def rnd_nonneg)

lemma baseline_and_std_positive:
  assumes "0 \<le> np_median np valid" and "0 \<le> np_std np valid"
    and "baseline_and_std np valid = (b, sd)"
  shows "0 < b \<and> 0 \<le> sd"
proof (cases "np_median np valid = 0 \<or> np_std np valid = 0")
  case True
  then have e: "baseline_and_std np valid
                  = (max 100 (np_mean np valid), max 50 (fmul (max 100 (np_mean np valid)) 0.5))"
    by (simp add: baseline_and_std_def Let_def)
  have "b = fst (baseline_and_std np valid)" "sd = snd (baseline_and_std np valid)"
    using assms(3) by simp_all
  then have "b = max 100 (np_mean np valid)"
    "sd = max 50 (fmul (max 100 (np_mean np valid)) 0.5)"
    unfolding e by (simp_all only: fst_conv snd_conv)
  then show ?thesis by linarith
next
  case False
  with assms(3) have "b = np_median np valid" "sd = np_std np valid"
    by (simp_all add: baseline_and_std_def Let_def)
  with False assms(1,2) show ?thesis by simp
qed

text \<open>
  C1, as amended.  Take a calibration that is computed (at least 50 samples in the
  buffer) on at least 10 finite non-negative values, with a sensitivity that is not
  negative, and with a median and a standard deviation from numpy that are not negative
  (as they are for non-negative values).  Then the detector is calibrated and the inhale
  threshold is above the baseline.  Moreover, unless the exhale threshold is at 1.0, the
  floor of the recentred exhale threshold, the baseline is above the exhale threshold and
  the two thresholds are at least \<open>max 20 (0.4 * baseline)\<close> apart up to the rounding of
  the double arithmetic: their difference is at least \<open>(1 - 1 / 2 ^ 49)\<close> times that bound.
\<close>

theorem calibration_thresholds:
  assumes "50 \<le> length (calibration_samples d)"
    and "10 \<le> length (valid_volumes (calibration_samples d))"
    and "0 \<le> sensitivity d"
    and "0 \<le> np_median np (valid_volumes (calibration_samples d))"
    and "0 \<le> np_std np (valid_volumes (calibration_samples d))"
    and "d' = auto_calibrate np d"
  shows "is_calibrated d'
       \<and> baseline_volume d' < inhale_threshold d'
       \<and> (exhale_threshold d' = 1
            \<or> (exhale_threshold d' < baseline_volume d'
                 \<and> (1 - 1 / 2 ^ 49) * max 20 (0.4 * baseline_volume d')
                      \<le> inhale_threshold d' - exhale_threshold d'))"
proof -
  let ?valid = "valid_volumes (calibration_samples d)"
  obtain b sd where bs: "baseline_and_std np ?valid = (b, sd)"
    by (cases "baseline_and_std np ?valid")
  obtain i e where ie: "thresholds b sd (sensitivity d) = (i, e)"
    by (cases "thresholds b sd (sensitivity d)")
  from baseline_and_std_positive [OF assms(4,5) bs] have b: "0 < b" and sd: "0 \<le> sd"
    by simp_all
  have d': "d' = d\<lparr> baseline_volume := b, inhale_threshold := i, exhale_threshold := e,
                     is_calibrated := True \<rparr>"
    using assms(1,2,6) bs ie by (simp add: auto_calibrate_def)
  note t = thresholds_separated [OF b sd assms(3) ie]
  have 1: "is_calibrated d'" and 2: "baseline_volume d' < inhale_threshold d'"
    using t by (simp_all add: d')
  have 3: "exhale_threshold d' = 1
            \<or> (exhale_threshold d' < baseline_volume d'
                 \<and> (1 - 1 / 2 ^ 49) * max 20 (0.4 * baseline_volume d')
                      \<le> inhale_threshold d' - exhale_threshold d')"
    using t unfolding d' by simp
  show ?thesis by (intro conjI) (rule 1 2 3)+
qed

text \<open>Buffers with fifty readings of one volume and fifty of another.\<close>

lemma two_level_valid:
  "0 \<le> a \<Longrightarrow> 0 \<le> b \<Longrightarrow>
   valid_volumes (replicate 50 (Fin a) @ replicate 50 (Fin b)) = replicate 50 a @ replicate 50 b"
  by (simp add: valid_volumes_append valid_volumes_replicate_Fin)

lemma two_level_mean: "mean (replicate 50 a @ replicate 50 b) = (a + b) / 2"
  by (simp add: mean_def sum_list_replicate field_simps)

lemma two_level_median:
  assumes "a \<le> b"
  shows "median (replicate 50 a @ replicate 50 b) = (a + b) / 2"
proof -
  have "sorted (replicate 50 a @ replicate 50 b)"
    using assms by (simp add: sorted_append)
  then have "sort (replicate 50 a @ replicate 50 b) = replicate 50 a @ replicate 50 b"
    by (rule sorted_sort_id)
  then show ?thesis
    by (simp add: median_def nth_append)
qed

lemma two_level_std:
  assumes "a \<le> b"
  shows "std (replicate 50 a @ replicate 50 b) = (b - a) / 2"
proof -
  have "mean (map (\<lambda>v. (v - (a + b) / 2)\<^sup>2) (replicate 50 a @ replicate 50 b))
          = ((b - a) / 2)\<^sup>2"
    by (simp add: mean_def sum_list_replicate power2_eq_square field_simps)
  moreover have "sqrt (((b - a) / 2)\<^sup>2) = (b - a) / 2"
    using assms by simp
  ultimately show ?thesis
    by (simp only: std_def two_level_mean)
qed

lemma doubles: "rnd 100 = 100" "rnd 50 = 50" "rnd 63 = 63" "rnd 3 = 3"
  by code_simp+

lemma loud_thresholds: "thresholds 100 50 1 = (160, 60)"
  by code_simp

lemma loud_auto_calibrate:
  "auto_calibrate numpy_reference ((new_detector True 1 0)\<lparr> calibration_samples :=
       replicate 50 (Fin 50) @ replicate 50 (Fin 150) \<rparr>)
   = (new_detector True 1 0)\<lparr> calibration_samples :=
       replicate 50 (Fin 50) @ replicate 50 (Fin 150),
       baseline_volume := 100, inhale_threshold := 160, exhale_threshold := 60,
       is_calibrated := True \<rparr>"
proof -
  have "baseline_and_std numpy_reference (replicate 50 50 @ replicate 50 150) = (100, 50)"
    by (simp add: baseline_and_std_def Let_def numpy_reference_def two_level_median
        two_level_std doubles)
  then show ?thesis
    by (simp add: auto_calibrate_def two_level_valid loud_thresholds new_detector_def)
qed

lemma close_thresholds:
  "thresholds 63 3 1 = (2659938529915699 / 35184372088832, 7093169413108531 / 140737488355328)"
  by code_simp

lemma close_auto_calibrate:
  "auto_calibrate numpy_reference ((new_detector True 1 0)\<lparr> calibration_samples :=
       replicate 50 (Fin 60) @ replicate 50 (Fin 66) \<rparr>)
   = (new_detector True 1 0)\<lparr> calibration_samples :=
       replicate 50 (Fin 60) @ replicate 50 (Fin 66),
       baseline_volume := 63, inhale_threshold := 2659938529915699 / 35184372088832,
       exhale_threshold := 7093169413108531 / 140737488355328, is_calibrated := True \<rparr>"
proof -
  have "baseline_and_std numpy_reference (replicate 50 60 @ replicate 50 66) = (63, 3)"
    by (simp add: baseline_and_std_def Let_def numpy_reference_def two_level_median
        two_level_std doubles)
  then show ?thesis
    by (simp add: auto_calibrate_def two_level_valid close_thresholds new_detector_def)
qed

lemma close_separation_in_doubles:
  "fmul (rnd 0.4) 63 = 1773292353277133 / 70368744177664"
  "fsub (2659938529915699 / 35184372088832) (7093169413108531 / 140737488355328)
     = 3546584706554265 / 140737488355328"
  by code_simp+

text \<open>
  C1, as stated, fails by the rounding of the recentred thresholds.  With the default
  sensitivity 1 and one hundred samples, fifty of volume 60 and fifty of volume 66, the
  baseline is 63 and the spread 3; the first thresholds are 6 apart, so they are
  recentred with \<^verbatim>\<open>half_separation\<close> 12.6 to the doubles 75.6 and 50.4.  All three exceed
  1, and the difference of the two thresholds is 25.199999999999996 (the doubles are
  written as fractions below), less than 0.4 times 63, both as real numbers and when
  the two sides are computed in double precision as the source would.
\<close>

theorem calibration_separation_rounded:
  "10 \<le> length (valid_volumes (calibration_samples ((new_detector True 1 0)\<lparr>
       calibration_samples := replicate 50 (Fin 60) @ replicate 50 (Fin 66) \<rparr>)))
   \<and> baseline_volume (auto_calibrate numpy_reference ((new_detector True 1 0)\<lparr>
       calibration_samples := replicate 50 (Fin 60) @ replicate 50 (Fin 66) \<rparr>)) = 63
   \<and> inhale_threshold (auto_calibrate numpy_reference ((new_detector True 1 0)\<lparr>
       calibration_samples := replicate 50 (Fin 60) @ replicate 50 (Fin 66) \<rparr>))
       = 2659938529915699 / 35184372088832
   \<and> exhale_threshold (auto_calibrate numpy_reference ((new_detector True 1 0)\<lparr>
       calibration_samples := replicate 50 (Fin 60) @ replicate 50 (Fin 66) \<rparr>))
       = 7093169413108531 / 140737488355328
   \<and> \<not> (max 20 (0.4 * baseline_volume (auto_calibrate numpy_reference
            ((new_detector True 1 0)\<lparr> calibration_samples :=
               replicate 50 (Fin 60) @ replicate 50 (Fin 66) \<rparr>)))
        \<le> inhale_threshold (auto_calibrate numpy_reference ((new_detector True 1 0)\<lparr>
              calibration_samples := replicate 50 (Fin 60) @ replicate 50 (Fin 66) \<rparr>))
          - exhale_threshold (auto_calibrate numpy_reference ((new_detector True 1 0)\<lparr>
              calibration_samples := replicate 50 (Fin 60) @ replicate 50 (Fin 66) \<rparr>)))
   \<and> \<not> (max 20 (fmul (rnd 0.4) (baseline_volume (auto_calibrate numpy_reference
            ((new_detector True 1 0)\<lparr> calibration_samples :=
               replicate 50 (Fin 60) @ replicate 50 (Fin 66) \<rparr>))))
        \<le> fsub (inhale_threshold (auto_calibrate numpy_reference ((new_detector True 1 0)\<lparr>
                calibration_samples := replicate 50 (Fin 60) @ replicate 50 (Fin 66) \<rparr>)))
             (exhale_threshold (auto_calibrate numpy_reference ((new_detector True 1 0)\<lparr>
                calibration_samples := replicate 50 (Fin 60) @ replicate 50 (Fin 66) \<rparr>))))"
proof -
  have "\<not> (max 20 (fmul (rnd 0.4) 63)
            \<le> fsub (2659938529915699 / 35184372088832) (7093169413108531 / 140737488355328))"
    unfolding close_separation_in_doubles by simp
  then show ?thesis
    unfolding close_auto_calibrate by (simp add: two_level_valid)
qed

theorem calibration_thresholds_witness:
  "50 \<le> length (calibration_samples ((new_detector True 1 0)\<lparr> calibration_samples :=
       replicate 50 (Fin 50) @ replicate 50 (Fin 150) \<rparr>))
   \<and> 10 \<le> length (valid_volumes (calibration_samples ((new_detector True 1 0)\<lparr>
       calibration_samples := replicate 50 (Fin 50) @ replicate 50 (Fin 150) \<rparr>)))
   \<and> 0 \<le> sensitivity ((new_detector True 1 0)\<lparr> calibration_samples :=
       replicate 50 (Fin 50) @ replicate 50 (Fin 150) \<rparr>)
   \<and> 0 \<le> np_median numpy_reference (valid_volumes (calibration_samples
       ((new_detector True 1 0)\<lparr> calibration_samples :=
          replicate 50 (Fin 50) @ replicate 50 (Fin 150) \<rparr>)))
   \<and> 0 \<le> np_std numpy_reference (valid_volumes (calibration_samples
       ((new_detector True 1 0)\<lparr> calibration_samples :=
          replicate 50 (Fin 50) @ replicate 50 (Fin 150) \<rparr>)))
   \<and> is_calibrated (auto_calibrate numpy_reference ((new_detector True 1 0)\<lparr>
       calibration_samples := replicate 50 (Fin 50) @ replicate 50 (Fin 150) \<rparr>))
   \<and> baseline_volume (auto_calibrate numpy_reference ((new_detector True 1 0)\<lparr>
       calibration_samples := replicate 50 (Fin 50) @ replicate 50 (Fin 150) \<rparr>))
      < inhale_threshold (auto_calibrate numpy_reference ((new_detector True 1 0)\<lparr>
       calibration_samples := replicate 50 (Fin 50) @ replicate 50 (Fin 150) \<rparr>))
   \<and> exhale_threshold (auto_calibrate numpy_reference ((new_detector True 1 0)\<lparr>
       calibration_samples := replicate 50 (Fin 50) @ replicate 50 (Fin 150) \<rparr>))
      < baseline_volume (auto_calibrate numpy_reference ((new_detector True 1 0)\<lparr>
       calibration_samples := replicate 50 (Fin 50) @ replicate 50 (Fin 150) \<rparr>))
   \<and> (1 - 1 / 2 ^ 49) * max 20 (0.4 * baseline_volume (auto_calibrate numpy_reference
         ((new_detector True 1 0)\<lparr> calibration_samples :=
            replicate 50 (Fin 50) @ replicate 50 (Fin 150) \<rparr>)))
      \<le> inhale_threshold (auto_calibrate numpy_reference ((new_detector True 1 0)\<lparr>
           calibration_samples := replicate 50 (Fin 50) @ replicate 50 (Fin 150) \<rparr>))
        - exhale_threshold (auto_calibrate numpy_reference ((new_detector True 1 0)\<lparr>
           calibration_samples := replicate 50 (Fin 50) @ replicate 50 (Fin 150) \<rparr>))"
proof -
  let ?d = "(new_detector True 1 0)\<lparr> calibration_samples :=
       replicate 50 (Fin 50) @ replicate 50 (Fin 150) \<rparr>"
  let ?d' = "auto_calibrate numpy_reference ?d"
  have a: "50 \<le> length (calibration_samples ?d)" by simp
  have b: "10 \<le> length (valid_volumes (calibration_samples ?d))"
    by (simp add: two_level_valid)
  have c: "0 \<le> sensitivity ?d" by (simp add: new_detector_def)
  have m: "0 \<le> np_median numpy_reference (valid_volumes (calibration_samples ?d))"
    by (simp add: two_level_valid numpy_reference_def two_level_median doubles)
  have s: "0 \<le> np_std numpy_reference (valid_volumes (calibration_samples ?d))"
    by (simp add: two_level_valid numpy_reference_def two_level_std doubles)
  note t = calibration_thresholds [OF a b c m s refl]
  from t have 1: "is_calibrated ?d'"
    by (rule conjunct1)
  from t have 2: "baseline_volume ?d' < inhale_threshold ?d'"
    by (rule conjunct1 [OF conjunct2])
  have "exhale_threshold ?d' \<noteq> 1"
    unfolding loud_auto_calibrate by simp
  with t have 3: "exhale_threshold ?d' < baseline_volume ?d'
      \<and> (1 - 1 / 2 ^ 49) * max 20 (0.4 * baseline_volume ?d')
           \<le> inhale_threshold ?d' - exhale_threshold ?d'"
    by blast
  show ?thesis
    by (intro conjI) (rule a b c m s 1 2 3 [THEN conjunct1] 3 [THEN conjunct2])+
qed

section \<open>Game over\<close>

lemma check_collisions_loop_iff:
  "check_collisions_loop b ps \<longleftrightarrow>
     (\<exists>p \<in> set ps. horizontally_overlaps b p \<and> outside_gap b p)"
  by (induction ps) (auto simp add: horizontally_overlaps_def outside_gap_def Let_def)

lemma game_over_do_game_over: "game_over (do_game_over s)"
  by (simp add: do_game_over_def Let_def)

lemma game_over_before_screen:
  "game_over (update_position (limit_velocity (expire_breathing_force now (apply_gravity s))))
     = game_over s"
  by (simp add: update_position_def limit_velocity_def expire_breathing_force_def
      apply_gravity_def)

lemma game_over_keep_bird_on_screen:
  "game_over (keep_bird_on_screen s) \<longleftrightarrow>
     game_over s \<or> (\<not> bird_y (the_bird s) < real_of_int (radius (the_bird s))
                    \<and> bird_y (the_bird s) > GAME_HEIGHT - real_of_int (radius (the_bird s)))"
  by (simp add: keep_bird_on_screen_def game_over_do_game_over)

lemma game_over_update_bird_physics:
  "game_over (update_bird_physics now s) \<longleftrightarrow>
     game_over s \<or> (\<not> next_position s < real_of_int (radius (the_bird s))
                    \<and> next_position s > GAME_HEIGHT - real_of_int (radius (the_bird s)))"
  by (simp add: update_bird_physics_def game_over_keep_bird_on_screen game_over_before_screen
      position_before_screen radius_before_screen next_position_def)

lemma game_over_update_pipes: "game_over (update_pipes g s) = game_over s"
  by (simp add: update_pipes_def generate_pipe_def generate_pipe_at_position_def Let_def)

lemma game_over_check_collisions:
  "game_over (check_collisions s) \<longleftrightarrow>
     game_over s \<or> (\<exists>p \<in> set (pipes s). horizontally_overlaps (the_bird s) p
                                        \<and> outside_gap (the_bird s) p)"
  by (auto simp add: check_collisions_def game_over_do_game_over check_collisions_loop_iff)

lemma update_score_loop_eq:
  "update_score_loop bx ps sc =
     (map (\<lambda>p. if \<not> passed p \<and> crossed bx p then p\<lparr> passed := True \<rparr> else p) ps,
      sc + int (length (filter (\<lambda>p. \<not> passed p \<and> crossed bx p) ps)))"
  by (induction ps arbitrary: sc) (simp_all add: crossed_def)

lemma pipes_update_score:
  "pipes (update_score s) =
     map (\<lambda>p. if \<not> passed p \<and> crossed (bird_x (the_bird s)) p then p\<lparr> passed := True \<rparr> else p)
       (pipes s)"
  by (simp add: update_score_def update_score_loop_eq)


lemma game_over_update_score: "game_over (update_score s) = game_over s"
  by (simp add: update_score_def update_score_loop_eq)

lemma pipes_do_game_over: "pipes (do_game_over s) = pipes s"
  by (simp add: do_game_over_def Let_def)

lemma pipes_check_collisions: "pipes (check_collisions s) = pipes s"
  by (simp add: check_collisions_def pipes_do_game_over)

text \<open>Marking pipes as passed does not change what the bird collides with.\<close>

lemma collision_after_marking:
  "(\<exists>p \<in> set (map (\<lambda>p. if c p then p\<lparr> passed := True \<rparr> else p) ps).
       horizontally_overlaps b p \<and> outside_gap b p)
   \<longleftrightarrow> (\<exists>p \<in> set ps. horizontally_overlaps b p \<and> outside_gap b p)"
  by (induction ps) (simp_all add: horizontally_overlaps_def outside_gap_def)

lemma collision_after_update_score:
  "(\<exists>p \<in> set (pipes (update_score s)). horizontally_overlaps b p \<and> outside_gap b p)
   \<longleftrightarrow> (\<exists>p \<in> set (pipes s). horizontally_overlaps b p \<and> outside_gap b p)"
  unfolding pipes_update_score by (rule collision_after_marking)

lemma game_over_update_game:
  "game_over (update_game now g s) \<longleftrightarrow>
     game_over s
     \<or> (\<not> next_position s < real_of_int (radius (the_bird s))
         \<and> next_position s > GAME_HEIGHT - real_of_int (radius (the_bird s)))
     \<or> (\<exists>p \<in> set (pipes (update_game now g s)).
           horizontally_overlaps (the_bird (update_game now g s)) p
           \<and> outside_gap (the_bird (update_game now g s)) p)"
proof -
  let ?s2 = "update_pipes g (update_bird_physics now s)"
  have "game_over (update_game now g s) \<longleftrightarrow>
          game_over ?s2 \<or> (\<exists>p \<in> set (pipes ?s2). horizontally_overlaps (the_bird ?s2) p
                                        \<and> outside_gap (the_bird ?s2) p)"
    by (simp add: update_game_def game_over_update_score game_over_check_collisions)
  moreover have "pipes (update_game now g s) = pipes (update_score ?s2)"
    by (simp add: update_game_def pipes_update_score pipes_check_collisions
        the_bird_check_collisions)
  moreover have "the_bird (update_game now g s) = the_bird ?s2"
    by (simp add: the_bird_update_game the_bird_update_pipes)
  ultimately show ?thesis
    by (simp only: collision_after_update_score game_over_update_pipes
        game_over_update_bird_physics disj_assoc)
qed

text \<open>
  C3, as amended.  In a frame computed while the game is running, the game becomes over
  if and only if (a) after the frame the vertical extent of the bird is not within the
  gap of some pipe that the bird overlaps horizontally, or (b) the position computed for
  the bird lies strictly beyond the bottom boundary \<open>GAME_HEIGHT - radius\<close>; the bird is
  then put on the boundary with velocity 0.  When the computed position lies above the
  top boundary, the bird is put at \<open>y = radius\<close> with velocity 0, and the game becomes over
  only through (a).
\<close>

theorem game_over_iff_collision_or_floor:
  assumes "is_running s" and "\<not> is_paused s" and "\<not> game_over s"
    and "2 * real_of_int (radius (the_bird s)) \<le> GAME_HEIGHT"
    and "s' = game_loop_frame now g s"
  shows "(game_over s' \<longleftrightarrow>
            (\<exists>p \<in> set (pipes s'). horizontally_overlaps (the_bird s') p
                                  \<and> outside_gap (the_bird s') p)
            \<or> next_position s > GAME_HEIGHT - real_of_int (radius (the_bird s)))
       \<and> (next_position s > GAME_HEIGHT - real_of_int (radius (the_bird s)) \<longrightarrow>
            bird_y (the_bird s') = GAME_HEIGHT - real_of_int (radius (the_bird s))
            \<and> velocity_y (the_bird s') = 0)
       \<and> (next_position s < real_of_int (radius (the_bird s)) \<longrightarrow>
            bird_y (the_bird s') = real_of_int (radius (the_bird s))
            \<and> velocity_y (the_bird s') = 0
            \<and> (game_over s' \<longleftrightarrow>
                  (\<exists>p \<in> set (pipes s'). horizontally_overlaps (the_bird s') p
                                        \<and> outside_gap (the_bird s') p)))"
proof -
  let ?r = "real_of_int (radius (the_bird s))"
  let ?hit = "\<exists>p \<in> set (pipes s'). horizontally_overlaps (the_bird s') p
                                  \<and> outside_gap (the_bird s') p"
  have s': "s' = update_game now g s"
    using assms by (simp add: game_loop_frame_def)
  have over: "game_over s' \<longleftrightarrow>
      (\<not> next_position s < ?r \<and> next_position s > GAME_HEIGHT - ?r) \<or> ?hit"
    unfolding s' using assms(3) game_over_update_game [of now g s] by simp
  have floor: "next_position s > GAME_HEIGHT - ?r \<Longrightarrow> \<not> next_position s < ?r"
    using assms(4) by linarith
  have top: "next_position s < ?r \<Longrightarrow> \<not> next_position s > GAME_HEIGHT - ?r"
    using assms(4) by linarith
  have bird: "the_bird s' = the_bird (keep_bird_on_screen
      (update_position (limit_velocity (expire_breathing_force now (apply_gravity s)))))"
    unfolding s' by (simp add: the_bird_update_game update_bird_physics_def)
  have 1: "game_over s' \<longleftrightarrow> ?hit \<or> next_position s > GAME_HEIGHT - ?r"
    using over floor by blast
  have 2: "next_position s > GAME_HEIGHT - ?r \<longrightarrow>
            bird_y (the_bird s') = GAME_HEIGHT - ?r \<and> velocity_y (the_bird s') = 0"
    using floor
    by (simp add: bird the_bird_keep_bird_on_screen position_before_screen radius_before_screen
        next_position_def)
  have 3: "next_position s < ?r \<longrightarrow>
            bird_y (the_bird s') = ?r \<and> velocity_y (the_bird s') = 0
            \<and> (game_over s' \<longleftrightarrow> ?hit)"
  proof
    assume a: "next_position s < ?r"
    then have "bird_y (the_bird s') = ?r \<and> velocity_y (the_bird s') = 0"
      by (simp add: bird the_bird_keep_bird_on_screen position_before_screen
          radius_before_screen next_position_def)
    moreover from a over top have "game_over s' \<longleftrightarrow> ?hit" by blast
    ultimately show "bird_y (the_bird s') = ?r \<and> velocity_y (the_bird s') = 0
            \<and> (game_over s' \<longleftrightarrow> ?hit)" by blast
  qed
  show ?thesis by (intro conjI) (rule 1 2 3)+
qed

lemma landing_state:
  "exec (Start 0 250 250 250 # replicate 3 (Frame 0 250) @ Breathing ''exhale'' 0 0
           # replicate 35 (Frame 0 250)) new_game
   = \<lparr> the_bird = \<lparr> bird_x = 100, bird_y = 570, velocity_y = 10, radius = 20 \<rparr>,
       pipes = [Pipe 686 250, Pipe 986 250, Pipe 1286 250],
       GRAVITY = 1 / 2, PIPE_SPEED = 3, is_running = True, is_paused = False,
       score = 0, high_score = 0, game_over = False, start_time = 0,
       current_breathing = ''exhale'', breathing_force_active = True,
       breathing_force_timer = 0 \<rparr>"
  by code_simp

lemma landing_frame:
  "game_loop_frame 0 250
     \<lparr> the_bird = \<lparr> bird_x = 100, bird_y = 570, velocity_y = 10, radius = 20 \<rparr>,
       pipes = [Pipe 686 250, Pipe 986 250, Pipe 1286 250],
       GRAVITY = 1 / 2, PIPE_SPEED = 3, is_running = True, is_paused = False,
       score = 0, high_score = 0, game_over = False, start_time = 0,
       current_breathing = ''exhale'', breathing_force_active = True,
       breathing_force_timer = 0 \<rparr>
   = \<lparr> the_bird = \<lparr> bird_x = 100, bird_y = 580, velocity_y = 10, radius = 20 \<rparr>,
       pipes = [Pipe 683 250, Pipe 983 250, Pipe 1283 250],
       GRAVITY = 1 / 2, PIPE_SPEED = 3, is_running = True, is_paused = False,
       score = 0, high_score = 0, game_over = False, start_time = 0,
       current_breathing = ''exhale'', breathing_force_active = True,
       breathing_force_timer = 0 \<rparr>"
  by code_simp

text \<open>
  C3, as stated, fails when the bird lands exactly on the bottom boundary.  Start a game,
  let three frames pass, exhale, and let 35 more frames pass: the game is running, the
  bird is at y = 570 with velocity 10.  The next frame moves it to y = 580, which is
  \<open>GAME_HEIGHT - radius\<close>: the bird has reached the bottom boundary, and the game is not
  over, because \<^verbatim>\<open>_update_bird_physics\<close> tests \<^verbatim>\<open>self.bird.y > self.GAME_HEIGHT - self.bird.radius\<close>.
\<close>

theorem bottom_boundary_reached_without_game_over:
  "is_running (exec (Start 0 250 250 250 # replicate 3 (Frame 0 250) @ Breathing ''exhale'' 0 0
           # replicate 35 (Frame 0 250)) new_game)
   \<and> \<not> is_paused (exec (Start 0 250 250 250 # replicate 3 (Frame 0 250)
           @ Breathing ''exhale'' 0 0 # replicate 35 (Frame 0 250)) new_game)
   \<and> \<not> game_over (exec (Start 0 250 250 250 # replicate 3 (Frame 0 250)
           @ Breathing ''exhale'' 0 0 # replicate 35 (Frame 0 250)) new_game)
   \<and> bird_y (the_bird (game_loop_frame 0 250 (exec (Start 0 250 250 250
           # replicate 3 (Frame 0 250) @ Breathing ''exhale'' 0 0
           # replicate 35 (Frame 0 250)) new_game)))
      = GAME_HEIGHT - real_of_int (radius (the_bird (game_loop_frame 0 250 (exec
           (Start 0 250 250 250 # replicate 3 (Frame 0 250) @ Breathing ''exhale'' 0 0
           # replicate 35 (Frame 0 250)) new_game))))
   \<and> \<not> game_over (game_loop_frame 0 250 (exec (Start 0 250 250 250
           # replicate 3 (Frame 0 250) @ Breathing ''exhale'' 0 0
           # replicate 35 (Frame 0 250)) new_game))"
  unfolding landing_state landing_frame
  by (simp add: GAME_HEIGHT_def)

theorem game_over_iff_collision_or_floor_witness:
  "is_running (exec [Start 0 250 300 350] new_game)
   \<and> \<not> is_paused (exec [Start 0 250 300 350] new_game)
   \<and> \<not> game_over (exec [Start 0 250 300 350] new_game)
   \<and> 2 * real_of_int (radius (the_bird (exec [Start 0 250 300 350] new_game))) \<le> GAME_HEIGHT
   \<and> (game_over (game_loop_frame 1 200 (exec [Start 0 250 300 350] new_game)) \<longleftrightarrow>
        (\<exists>p \<in> set (pipes (game_loop_frame 1 200 (exec [Start 0 250 300 350] new_game))).
            horizontally_overlaps
              (the_bird (game_loop_frame 1 200 (exec [Start 0 250 300 350] new_game))) p
            \<and> outside_gap
              (the_bird (game_loop_frame 1 200 (exec [Start 0 250 300 350] new_game))) p)
        \<or> next_position (exec [Start 0 250 300 350] new_game)
            > GAME_HEIGHT - real_of_int (radius (the_bird (exec [Start 0 250 300 350] new_game))))"
proof -
  let ?s = "exec [Start 0 250 300 350] new_game"
  have a: "is_running ?s" and b: "\<not> is_paused ?s" and c: "\<not> game_over ?s"
    unfolding started_game by (simp_all add: new_game_def)
  have d: "2 * real_of_int (radius (the_bird ?s)) \<le> GAME_HEIGHT"
    unfolding started_game by (simp add: Bird_def GAME_HEIGHT_def)
  note t = game_over_iff_collision_or_floor [OF a b c d refl, of 1 200]
  show ?thesis by (intro conjI) (rule a b c d t [THEN conjunct1])+
qed

section \<open>Score\<close>

















text \<open>Moving the pipes: every pipe that is kept is a pipe of the old list, shifted.\<close>

lemma move_pipes_eq:
  "move_pipes sp ps =
     filter (\<lambda>p. \<not> pipe_x p + real_of_int (width p) < 0)
       (map (\<lambda>p. p\<lparr> pipe_x := pipe_x p - sp \<rparr>) ps)"
  by (induction ps) (simp_all add: Let_def)

lemma move_pipes_keeps_passed:
  "p \<in> set (move_pipes sp ps) \<Longrightarrow>
   \<exists>q \<in> set ps. p = q\<lparr> pipe_x := pipe_x q - sp \<rparr> \<and> passed p = passed q"
  by (auto simp add: move_pipes_eq)











end
